theory Spec2Isabelle
  imports Complex_Main "HOL-Library.Char_ord" "HOL-Library.List_Lexorder"
begin

section \<open>Hyper-parameter search of \<^verbatim>\<open>sklearn/grid_search.py\<close>\<close>

text \<open>
  The development follows the module top to bottom: the parameter grid and the parameter
  sampler, the evaluation of one grid point, the validation of a grid, and the search
  itself (scorer resolution, dispatch, aggregation, selection of the best configuration,
  refit and the delegated \<^verbatim>\<open>score\<close>).

  Conventions. A Python exception is a value of \<open>error\<close>, and a function that may raise
  returns \<open>error + 'a\<close> with \<open>Inl\<close> for the exception. A \<^verbatim>\<open>dict\<close> that the code only
  iterates is given by its item list (keys pairwise distinct); a \<^verbatim>\<open>dict\<close> that the code
  builds is a map. Python floats are read as real numbers: rounding, infinities and NaN are
  outside the model. Strings are compared as Python compares them, lexicographically by
  character code.
\<close>

datatype error =
    ValueError string
  | TypeError string
  | KeyError string
  | IndexError string
  | AttributeError string
  | ZeroDivisionError string
  | NameError string
  | CollaboratorError string

subsection \<open>Python helpers\<close>

text \<open>\<^verbatim>\<open>dict(pairs)\<close>: the pairs are stored left to right, a later pair replacing an earlier
  one with the same key.\<close>

definition dict :: "('k \<times> 'v) list \<Rightarrow> ('k \<rightharpoonup> 'v)" where
  "dict kvs = foldl (\<lambda>m (k, v). m(k \<mapsto> v)) Map.empty kvs"

text \<open>\<^verbatim>\<open>itertools.product(*pools)\<close>, as its documentation defines it:
  \<^verbatim>\<open>result = [[]]; for pool in pools: result = [x+[y] for x in result for y in pool]\<close>.\<close>

definition itertools_product :: "'a list list \<Rightarrow> 'a list list" where
  "itertools_product pools =
     foldl (\<lambda>result pool. concat (map (\<lambda>x. map (\<lambda>y. x @ [y]) pool) result)) [[]] pools"

text \<open>\<^verbatim>\<open>sorted(xs, key=key, reverse=reverse)\<close>. Python's sort is stable; with
  \<^verbatim>\<open>reverse\<close> set the list is reversed, sorted and reversed again, which keeps elements with
  equal keys in their original order.\<close>

definition sorted_py :: "('a \<Rightarrow> 'k::linorder) \<Rightarrow> bool \<Rightarrow> 'a list \<Rightarrow> 'a list" where
  "sorted_py key reverse xs =
     (if reverse then rev (sort_key key (rev xs)) else sort_key key xs)"

subsection \<open>\<^verbatim>\<open>ParameterGrid\<close>\<close>

type_synonym 'v config = "string \<rightharpoonup> 'v"

text \<open>An axis group is a \<^verbatim>\<open>dict\<close> from parameter names to sequences of values, given by
  \<^verbatim>\<open>p.items()\<close> in the dictionary's own iteration order.\<close>

type_synonym 'v axis_group = "(string \<times> 'v list) list"

text \<open>The argument \<^verbatim>\<open>param_grid\<close>: one mapping, or a sequence of mappings. The type \<open>'a\<close>
  is that of the values the mappings hold.\<close>

datatype 'a param_grid = Mapping "(string \<times> 'a) list" | Sequence "(string \<times> 'a) list list"

text \<open>\<^verbatim>\<open>ParameterGrid.__init__\<close>: a single mapping is wrapped in a singleton list. The value
  is the attribute \<^verbatim>\<open>self.param_grid\<close>.\<close>

fun ParameterGrid :: "'a param_grid \<Rightarrow> (string \<times> 'a) list list" where
  "ParameterGrid (Mapping p) = [p]"
| "ParameterGrid (Sequence ps) = ps"

text \<open>The body of the loop of \<^verbatim>\<open>ParameterGrid.__iter__\<close> for one group \<open>p\<close>: the list of
  the dictionaries it yields.\<close>

definition iter_group :: "'v axis_group \<Rightarrow> 'v config list" where
  "iter_group p =
     (let items = sort_key fst p in
      if items = [] then [Map.empty]
      else
        let keys = map fst items; values = map snd items in
        map (\<lambda>v. dict (zip keys v)) (itertools_product values))"

definition ParameterGrid_iter :: "'v axis_group list \<Rightarrow> 'v config list" where
  "ParameterGrid_iter self_param_grid = concat (map iter_group self_param_grid)"

text \<open>\<^verbatim>\<open>ParameterGrid.__len__\<close>. \<^verbatim>\<open>reduce(operator.mul, ...)\<close> has no initial value and is
  only reached for a non-empty \<open>p\<close>, where it multiplies from the first length on.\<close>

definition len_group :: "'v axis_group \<Rightarrow> nat" where
  "len_group p =
     (case map (\<lambda>(k, v). length v) p of
        [] \<Rightarrow> 1
      | n # ns \<Rightarrow> foldl (*) n ns)"

definition ParameterGrid_len :: "'v axis_group list \<Rightarrow> nat" where
  "ParameterGrid_len self_param_grid = sum_list (map len_group self_param_grid)"

text \<open>The enumeration as the specification words it: per group, the Cartesian product of
  the value sequences taken in sorted name order, the first name varying slowest and the
  last fastest; an empty group gives the empty mapping alone; the groups are concatenated
  in the given order.\<close>

fun spec_cartesian :: "(string \<times> 'v list) list \<Rightarrow> 'v config list" where
  "spec_cartesian [] = [Map.empty]"
| "spec_cartesian ((k, vs) # rest) =
     concat (map (\<lambda>v. map (\<lambda>c. c(k \<mapsto> v)) (spec_cartesian rest)) vs)"

definition spec_configurations :: "'v axis_group list \<Rightarrow> 'v config list" where
  "spec_configurations groups = concat (map (\<lambda>p. spec_cartesian (sort_key fst p)) groups)"

definition spec_size :: "'v axis_group list \<Rightarrow> nat" where
  "spec_size groups = sum_list (map (\<lambda>p. prod_list (map (\<lambda>(k, v). length v) p)) groups)"

definition well_formed_groups :: "'v axis_group list \<Rightarrow> bool" where
  "well_formed_groups groups = list_all (\<lambda>p. distinct (map fst p)) groups"


subsection \<open>\<^verbatim>\<open>ParameterSampler\<close>\<close>

text \<open>A value of \<^verbatim>\<open>param_distributions\<close> either has an attribute \<^verbatim>\<open>rvs\<close> (a distribution
  object \<open>'d\<close>) or is indexed as a list of values.\<close>

datatype ('v, 'd) distribution = Rvs 'd | Values "'v list"

text \<open>The argument \<^verbatim>\<open>random_state\<close>: \<^verbatim>\<open>None\<close>, an integer seed, or a generator object (given
  by its current state).\<close>

datatype 'g random_state = NoneState | IntSeed int | Generator 'g

text \<open>The random sources, which are numpy's and scipy's: \<open>RandomState seed\<close> is the state of
  a fresh generator; \<open>randint g n\<close> is \<^verbatim>\<open>g.randint(n)\<close>, the index drawn and the advanced
  state; \<open>rvs d g\<close> is \<^verbatim>\<open>d.rvs()\<close>, which draws from numpy's global generator.\<close>

record ('v, 'd, 'g) numpy_random =
  RandomState :: "int \<Rightarrow> 'g"
  randint :: "'g \<Rightarrow> nat \<Rightarrow> nat \<times> 'g"
  rvs :: "'d \<Rightarrow> 'g \<Rightarrow> 'v \<times> 'g"

text \<open>The generators in play during one pass: numpy's global one, and the one
  \<^verbatim>\<open>check_random_state\<close> returned when it is not the global one.\<close>

record 'g generators =
  global :: 'g
  rnd :: "'g option"

record ('v, 'd, 'g) ParameterSampler =
  param_distributions :: "(string \<times> ('v, 'd) distribution) list"
  n_iter :: int
  random_state :: "'g random_state"

text \<open>\<^verbatim>\<open>check_random_state(seed)\<close>: \<^verbatim>\<open>None\<close> gives the global generator, an integer a fresh
  generator seeded with it, a generator itself.\<close>

fun check_random_state ::
  "('v, 'd, 'g) numpy_random \<Rightarrow> 'g random_state \<Rightarrow> 'g \<Rightarrow> 'g generators" where
  "check_random_state np NoneState g = \<lparr>global = g, rnd = None\<rparr>"
| "check_random_state np (IntSeed seed) g = \<lparr>global = g, rnd = Some (RandomState np seed)\<rparr>"
| "check_random_state np (Generator r) g = \<lparr>global = g, rnd = Some r\<rparr>"

text \<open>\<^verbatim>\<open>v[rnd.randint(len(v))]\<close>. numpy raises for an empty range; indexing raises out of
  range.\<close>

definition draw_value ::
  "('v, 'd, 'g) numpy_random \<Rightarrow> 'v list \<Rightarrow> 'g generators \<Rightarrow> error + ('v \<times> 'g generators)" where
  "draw_value np v gs =
     (if length v = 0 then Inl (ValueError ''low >= high'')
      else
        let (i, gs') =
          (case rnd gs of
             None \<Rightarrow> (let (i, g') = randint np (global gs) (length v) in (i, gs\<lparr>global := g'\<rparr>))
           | Some r \<Rightarrow> (let (i, r') = randint np r (length v) in (i, gs\<lparr>rnd := Some r'\<rparr>)))
        in if i < length v then Inr (v ! i, gs') else Inl (IndexError ''list index out of range''))"

text \<open>The inner loop \<^verbatim>\<open>for k, v in items\<close>, which fills \<^verbatim>\<open>params\<close>.\<close>

fun sample_params ::
  "('v, 'd, 'g) numpy_random \<Rightarrow> (string \<times> ('v, 'd) distribution) list \<Rightarrow> 'v config \<Rightarrow>
   'g generators \<Rightarrow> error + ('v config \<times> 'g generators)" where
  "sample_params np [] params gs = Inr (params, gs)"
| "sample_params np ((k, Rvs d) # items) params gs =
     (let (x, g') = rvs np d (global gs)
      in sample_params np items (params(k \<mapsto> x)) (gs\<lparr>global := g'\<rparr>))"
| "sample_params np ((k, Values v) # items) params gs =
     (case draw_value np v gs of
        Inl e \<Rightarrow> Inl e
      | Inr (x, gs') \<Rightarrow> sample_params np items (params(k \<mapsto> x)) gs')"

text \<open>The outer loop \<^verbatim>\<open>for _ in range(self.n_iter)\<close>, \<open>n\<close> passes left.\<close>

fun sample_loop ::
  "('v, 'd, 'g) numpy_random \<Rightarrow> (string \<times> ('v, 'd) distribution) list \<Rightarrow> nat \<Rightarrow>
   'g generators \<Rightarrow> error + ('v config list \<times> 'g generators)" where
  "sample_loop np items 0 gs = Inr ([], gs)"
| "sample_loop np items (Suc n) gs =
     (case sample_params np items Map.empty gs of
        Inl e \<Rightarrow> Inl e
      | Inr (params, gs') \<Rightarrow>
          (case sample_loop np items n gs' of
             Inl e \<Rightarrow> Inl e
           | Inr (rest, gs'') \<Rightarrow> Inr (params # rest, gs'')))"

text \<open>\<^verbatim>\<open>ParameterSampler.__iter__\<close>, run to its end from the global generator state \<open>g\<close>:
  the configurations yielded and the generators afterwards.\<close>

definition ParameterSampler_iter ::
  "('v, 'd, 'g) numpy_random \<Rightarrow> ('v, 'd, 'g) ParameterSampler \<Rightarrow> 'g \<Rightarrow>
   error + ('v config list \<times> 'g generators)" where
  "ParameterSampler_iter np self g =
     (let rnd = check_random_state np (random_state self) g;
          items = sort_key fst (param_distributions self)
      in sample_loop np items (nat (n_iter self)) rnd)"

definition ParameterSampler_len :: "('v, 'd, 'g) ParameterSampler \<Rightarrow> int" where
  "ParameterSampler_len self = n_iter self"

text \<open>What the sampler's claims require of its inputs: every candidate list has a value to
  draw, and \<^verbatim>\<open>randint(n)\<close> answers below \<open>n\<close>, as numpy documents.\<close>

definition nonempty_candidates :: "(string \<times> ('v, 'd) distribution) list \<Rightarrow> bool" where
  "nonempty_candidates items =
     list_all (\<lambda>(k, v). case v of Rvs d \<Rightarrow> True | Values xs \<Rightarrow> xs \<noteq> []) items"

definition only_candidate_lists :: "(string \<times> ('v, 'd) distribution) list \<Rightarrow> bool" where
  "only_candidate_lists items =
     list_all (\<lambda>(k, v). case v of Rvs d \<Rightarrow> False | Values xs \<Rightarrow> True) items"

definition randint_in_range :: "('v, 'd, 'g) numpy_random \<Rightarrow> bool" where
  "randint_in_range np = (\<forall>g n. 0 < n \<longrightarrow> fst (randint np g n) < n)"

text \<open>Two pairs of generators agree on the generator \<^verbatim>\<open>check_random_state\<close> returned, which
  is not the global one.\<close>

definition same_rnd :: "'g generators \<Rightarrow> 'g generators \<Rightarrow> bool" where
  "same_rnd a b = (rnd a = rnd b \<and> rnd a \<noteq> None)"
text \<open>A small deterministic random source and a sampler over two candidate lists, used to
  run the sampler on a concrete input: \<^verbatim>\<open>randint\<close> answers the generator's counter modulo
  the bound.\<close>

definition example_random :: "(nat, nat, nat) numpy_random" where
  "example_random =
     \<lparr>RandomState = (\<lambda>seed. nat seed), randint = (\<lambda>g n. (g mod n, Suc g)),
      rvs = (\<lambda>d g. (d, Suc g))\<rparr>"

definition example_sampler :: "(nat, nat, nat) ParameterSampler" where
  "example_sampler =
     \<lparr>param_distributions = [(''b'', Values [10, 20]), (''a'', Values [1, 2, 3])],
      n_iter = 2, random_state = IntSeed 0\<rparr>"

subsection \<open>Scores, scorers and the collaborating library\<close>

text \<open>The object a scorer returns: an instance of \<^verbatim>\<open>numbers.Number\<close>, read as a real, or any
  other object, given by \<^verbatim>\<open>str(value)\<close> and \<^verbatim>\<open>str(type(value))\<close>.\<close>

datatype score_value = Number real | NotNumber string string

text \<open>A scorer object: its call \<^verbatim>\<open>scorer(estimator, X, y)\<close> (\<^verbatim>\<open>scorer(estimator, X)\<close> when
  there are no targets) and its attribute \<^verbatim>\<open>greater_is_better\<close>, if it has one.\<close>

record ('e, 'x, 'y) scorer =
  call :: "'e \<Rightarrow> 'x \<Rightarrow> 'y option \<Rightarrow> error + score_value"
  greater_is_better :: "bool option"

text \<open>What the module uses of estimators, of \<^verbatim>\<open>sklearn.base\<close>, of \<^verbatim>\<open>sklearn.utils\<close> and of
  numpy indexing. \<open>'e\<close> are estimator objects, \<open>'p\<close> parameter dictionaries, \<open>'x\<close> data,
  \<open>'y\<close> targets and \<open>'i\<close> index sets or masks. \<open>fit\<close> returns the fitted estimator;
  \<open>callable_kernel e\<close> is \<^verbatim>\<open>hasattr(e, 'kernel') and callable(e.kernel)\<close>; \<open>pairwise e\<close> is
  \<^verbatim>\<open>getattr(e, '_pairwise', False)\<close>; \<open>list_items X a\<close> is \<^verbatim>\<open>[X[idx] for idx in a]\<close>;
  \<open>ix_rows X a b\<close> is \<^verbatim>\<open>X[np.ix_(a, b)]\<close>; \<open>mask_rows X a\<close> is \<^verbatim>\<open>X[safe_mask(X, a)]\<close>.\<close>

record ('e, 'p, 'x, 'y, 'i) collaborators =
  clone :: "'e \<Rightarrow> 'e"
  set_params :: "'e \<Rightarrow> 'p \<Rightarrow> error + 'e"
  hasattr_fit :: "'e \<Rightarrow> bool"
  hasattr_predict :: "'e \<Rightarrow> bool"
  hasattr_score :: "'e \<Rightarrow> bool"
  callable_kernel :: "'e \<Rightarrow> bool"
  pairwise :: "'e \<Rightarrow> bool"
  repr :: "'e \<Rightarrow> string"
  type_repr :: "'e \<Rightarrow> string"
  fit :: "'e \<Rightarrow> 'x \<Rightarrow> 'y option \<Rightarrow> error + 'e"
  score :: "'e \<Rightarrow> 'x \<Rightarrow> 'y option \<Rightarrow> error + score_value"
  hasattr_shape :: "'x \<Rightarrow> bool"
  shape :: "'x \<Rightarrow> nat \<times> nat"
  list_items :: "'x \<Rightarrow> 'i \<Rightarrow> 'x"
  ix_rows :: "'x \<Rightarrow> 'i \<Rightarrow> 'i \<Rightarrow> 'x"
  mask_rows :: "'x \<Rightarrow> 'i \<Rightarrow> 'x"
  mask_targets :: "'y \<Rightarrow> 'i \<Rightarrow> 'y"
  num_samples :: "'x \<Rightarrow> nat"
  len_targets :: "'y \<Rightarrow> nat"

subsection \<open>\<^verbatim>\<open>fit_grid_point\<close>\<close>

text \<open>The train and test parts of \<open>X\<close>, as the two branches on \<^verbatim>\<open>hasattr(X, "shape")\<close> cut
  them.\<close>

definition split_X ::
  "('e, 'p, 'x, 'y, 'i) collaborators \<Rightarrow> 'x \<Rightarrow> 'e \<Rightarrow> 'i \<Rightarrow> 'i \<Rightarrow> error + ('x \<times> 'x)" where
  "split_X api X base_estimator train test =
     (if \<not> hasattr_shape api X then
        if pairwise api base_estimator then
          Inl (ValueError (''Precomputed kernels or affinity matrices have '' @
                           ''to be passed as arrays or sparse matrices.''))
        else Inr (list_items api X train, list_items api X test)
      else
        if pairwise api base_estimator then
          if fst (shape api X) \<noteq> snd (shape api X) then
            Inl (ValueError ''X should be a square kernel matrix'')
          else Inr (ix_rows api X train train, ix_rows api X test train)
        else Inr (mask_rows api X train, mask_rows api X test))"

text \<open>\<^verbatim>\<open>fit_grid_point\<close>. The messages printed for \<^verbatim>\<open>verbose > 1\<close> go to the standard output
  and are left out, and the keyword arguments \<^verbatim>\<open>fit_params\<close> are part of \<open>fit\<close>.\<close>

definition fit_grid_point ::
  "('e, 'p, 'x, 'y, 'i) collaborators \<Rightarrow> 'x \<Rightarrow> 'y option \<Rightarrow> 'e \<Rightarrow> 'p \<Rightarrow> 'i \<Rightarrow> 'i \<Rightarrow>
   ('e, 'x, 'y) scorer option \<Rightarrow> error + (real \<times> 'p \<times> nat)" where
  "fit_grid_point api X y base_estimator parameters train test scorer =
     (case set_params api (clone api base_estimator) parameters of
        Inl e \<Rightarrow> Inl e
      | Inr clf \<Rightarrow>
          if callable_kernel api base_estimator then
            Inl (ValueError (''Cannot use a custom kernel function. '' @
                             ''Precompute the kernel matrix instead.''))
          else
            (case split_X api X base_estimator train test of
               Inl e \<Rightarrow> Inl e
             | Inr (X_train, X_test) \<Rightarrow>
                 let y_test = map_option (\<lambda>y. mask_targets api y test) y;
                     y_train = map_option (\<lambda>y. mask_targets api y train) y
                 in
                 (case fit api clf X_train y_train of
                    Inl e \<Rightarrow> Inl e
                  | Inr clf \<Rightarrow>
                      (case (case scorer of
                               Some s \<Rightarrow> call s clf X_test y_test
                             | None \<Rightarrow> score api clf X_test y_test) of
                         Inl e \<Rightarrow> Inl e
                       | Inr (NotNumber str type) \<Rightarrow>
                           Inl (ValueError (''scoring must return a number, got '' @ str @
                                            '' ('' @ type @ '') instead.''))
                       | Inr (Number this_score) \<Rightarrow>
                           Inr (this_score, parameters, num_samples api X_test)))))"

subsection \<open>\<^verbatim>\<open>_check_param_grid\<close>\<close>

text \<open>A value of a grid as the checks see it: a list, a tuple, an \<^verbatim>\<open>ndarray\<close> given by its
  shape, or an object of any other type.\<close>

datatype 'v grid_value = PyList "'v list" | PyTuple "'v list" | Ndarray "nat list" | PyObject

fun is_ndarray :: "'v grid_value \<Rightarrow> bool" where
  "is_ndarray (Ndarray sh) = True"
| "is_ndarray _ = False"

fun ndim :: "'v grid_value \<Rightarrow> nat" where
  "ndim (Ndarray sh) = length sh"
| "ndim _ = 0"

text \<open>\<^verbatim>\<open>len(v)\<close>, for the three types that reach it; an array without dimension has no
  length.\<close>

fun len :: "'v grid_value \<Rightarrow> error + nat" where
  "len (PyList xs) = Inr (length xs)"
| "len (PyTuple xs) = Inr (length xs)"
| "len (Ndarray []) = Inl (TypeError ''len() of unsized object'')"
| "len (Ndarray (n # sh)) = Inr n"
| "len PyObject = Inl (TypeError ''object has no len()'')"

text \<open>The body of the inner loop, for one value \<open>v\<close>.\<close>

definition check_value :: "'v grid_value \<Rightarrow> error + unit" where
  "check_value v =
     (if is_ndarray v \<and> ndim v > 1 then
        Inl (ValueError ''Parameter array should be one-dimensional.'')
      else
        let check = [case v of PyList xs \<Rightarrow> True | _ \<Rightarrow> False,
                     case v of PyTuple xs \<Rightarrow> True | _ \<Rightarrow> False,
                     is_ndarray v]
        in if \<not> (True \<in> set check) then Inl (ValueError ''Parameter values should be a list.'')
           else
             (case len v of
                Inl e \<Rightarrow> Inl e
              | Inr n \<Rightarrow>
                  if n = 0 then
                    Inl (ValueError (''Parameter values should be a non-empty '' @ ''list.''))
                  else Inr ()))"

text \<open>A loop that raises at the first failing step.\<close>

fun for_each :: "('a \<Rightarrow> error + unit) \<Rightarrow> 'a list \<Rightarrow> error + unit" where
  "for_each body [] = Inr ()"
| "for_each body (x # xs) = (case body x of Inl e \<Rightarrow> Inl e | Inr u \<Rightarrow> for_each body xs)"

definition check_param_grid :: "'v grid_value param_grid \<Rightarrow> error + unit" where
  "check_param_grid param_grid =
     for_each (\<lambda>p. for_each check_value (map snd p)) (ParameterGrid param_grid)"

text \<open>The values the specification admits: non-empty one-dimensional sequences.\<close>

fun admissible :: "'v grid_value \<Rightarrow> bool" where
  "admissible (PyList xs) = (xs \<noteq> [])"
| "admissible (PyTuple xs) = (xs \<noteq> [])"
| "admissible (Ndarray sh) = (length sh = 1 \<and> hd sh \<noteq> 0)"
| "admissible PyObject = False"

definition grid_values :: "'a param_grid \<Rightarrow> 'a list" where
  "grid_values param_grid = concat (map (map snd) (ParameterGrid param_grid))"

subsection \<open>\<^verbatim>\<open>BaseSearchCV\<close>\<close>

text \<open>The argument \<^verbatim>\<open>scoring\<close> when it is not \<^verbatim>\<open>None\<close>: a string, or a callable.\<close>

datatype ('e, 'x, 'y) scoring = ScoringName string | ScoringObject "('e, 'x, 'y) scorer"

text \<open>The argument \<^verbatim>\<open>pre_dispatch\<close>: \<^verbatim>\<open>None\<close>, a number of jobs, or an expression in
  \<^verbatim>\<open>n_jobs\<close>.\<close>

datatype pre_dispatch = AllJobs | Jobs nat | Expression string

text \<open>What the module uses of \<^verbatim>\<open>sklearn.metrics\<close>: the table \<^verbatim>\<open>SCORERS\<close>, and how a
  \<^verbatim>\<open>Scorer\<close> object built on a function \<open>'f\<close> scores an estimator.\<close>

record ('e, 'f, 'x, 'y) metrics =
  SCORERS :: "string \<rightharpoonup> ('e, 'x, 'y) scorer"
  score_with :: "'f \<Rightarrow> 'e \<Rightarrow> 'x \<Rightarrow> 'y option \<Rightarrow> error + score_value"

text \<open>Modelled from the spec: the class \<^verbatim>\<open>Scorer\<close> of \<^verbatim>\<open>sklearn.metrics\<close>, whose source is not
  part of the module. The specification gives a scorer a call
  \<^verbatim>\<open>scorer(fitted_model, X[, y])\<close> and a flag \<^verbatim>\<open>greater_is_better\<close>, which
  \<^verbatim>\<open>Scorer(func, greater_is_better=True)\<close> sets from its argument.\<close>

definition Scorer :: "('e, 'f, 'x, 'y) metrics \<Rightarrow> 'f \<Rightarrow> bool \<Rightarrow> ('e, 'x, 'y) scorer" where
  "Scorer m func gib = \<lparr>call = score_with m func, greater_is_better = Some gib\<rparr>"

record 'p CVScoreTuple =
  parameters :: 'p
  mean_validation_score :: real
  cv_validation_scores :: "real list"

text \<open>The search object: the constructor's arguments, and the attributes \<^verbatim>\<open>_fit\<close> sets (the
  source's names end in an underscore, written here with a prime), which are \<open>None\<close> as
  long as they are not set. \<^verbatim>\<open>verbose\<close> only prints; \<^verbatim>\<open>fit_params\<close> is part
  of \<open>fit\<close>; \<^verbatim>\<open>cv\<close> enters \<^verbatim>\<open>_fit\<close> as the folds \<^verbatim>\<open>check_cv\<close> makes of it.\<close>

record ('e, 'f, 'p, 'x, 'y) BaseSearchCV =
  estimator :: 'e
  scoring :: "('e, 'x, 'y) scoring option"
  loss_func :: "'f option"
  score_func :: "'f option"
  n_jobs :: int
  iid :: bool
  refit :: bool
  pre_dispatch :: pre_dispatch
  scorer_' :: "('e, 'x, 'y) scorer option option"
  cv_scores_' :: "'p CVScoreTuple list option"
  best_params_' :: "'p option"
  best_score_' :: "real option"
  best_estimator_' :: "'e option"

text \<open>\<^verbatim>\<open>BaseSearchCV._check_estimator\<close>, on the constructor's arguments.\<close>

definition check_estimator ::
  "('e, 'p, 'x, 'y, 'i) collaborators \<Rightarrow> 'e \<Rightarrow> ('e, 'x, 'y) scoring option \<Rightarrow> 'f option \<Rightarrow>
   'f option \<Rightarrow> error + unit" where
  "check_estimator api est scoring_arg loss_func_arg score_func_arg =
     (if \<not> hasattr_fit api est \<or> \<not> (hasattr_predict api est \<or> hasattr_score api est) then
        Inl (TypeError (''estimator should a be an estimator implementing'' @
                        '' 'fit' and 'predict' or 'score' methods,'' @
                        '' '' @ repr api est @ '' (type '' @ type_repr api est @
                        '') was passed''))
      else if scoring_arg = None \<and> loss_func_arg = None \<and> score_func_arg = None
              \<and> \<not> hasattr_score api est then
        Inl (TypeError (''If no scoring is specified, the estimator passed '' @
                        ''should have a 'score' method. The estimator '' @
                        repr api est @ '' does not.''))
      else Inr ())"

text \<open>\<^verbatim>\<open>BaseSearchCV.__init__\<close> with the defaults \<^verbatim>\<open>n_jobs=1\<close>, \<^verbatim>\<open>iid=True\<close>, \<^verbatim>\<open>refit=True\<close>
  and \<^verbatim>\<open>pre_dispatch='2*n_jobs'\<close> written by the caller.\<close>

definition BaseSearchCV_init ::
  "('e, 'p, 'x, 'y, 'i) collaborators \<Rightarrow> 'e \<Rightarrow> ('e, 'x, 'y) scoring option \<Rightarrow> 'f option \<Rightarrow>
   'f option \<Rightarrow> int \<Rightarrow> bool \<Rightarrow> bool \<Rightarrow> pre_dispatch \<Rightarrow>
   error + ('e, 'f, 'p, 'x, 'y) BaseSearchCV" where
  "BaseSearchCV_init api est scoring_arg loss_func_arg score_func_arg n_jobs_arg iid_arg
     refit_arg pre_dispatch_arg =
     (case check_estimator api est scoring_arg loss_func_arg score_func_arg of
        Inl e \<Rightarrow> Inl e
      | Inr u \<Rightarrow>
          Inr \<lparr>estimator = est, scoring = scoring_arg, loss_func = loss_func_arg,
               score_func = score_func_arg, n_jobs = n_jobs_arg, iid = iid_arg,
               refit = refit_arg, pre_dispatch = pre_dispatch_arg, scorer_' = None,
               cv_scores_' = None, best_params_' = None, best_score_' = None,
               best_estimator_' = None\<rparr>)"

text \<open>\<^verbatim>\<open>GridSearchCV.__init__\<close>: the base constructor, then the check of the grid. The
  value is the search object together with its attribute \<^verbatim>\<open>param_grid\<close>.\<close>

definition GridSearchCV_init ::
  "('e, 'p, 'x, 'y, 'i) collaborators \<Rightarrow> 'e \<Rightarrow> 'v grid_value param_grid \<Rightarrow>
   ('e, 'x, 'y) scoring option \<Rightarrow> 'f option \<Rightarrow> 'f option \<Rightarrow> int \<Rightarrow> bool \<Rightarrow> bool \<Rightarrow>
   pre_dispatch \<Rightarrow> error + (('e, 'f, 'p, 'x, 'y) BaseSearchCV \<times> 'v grid_value param_grid)" where
  "GridSearchCV_init api est param_grid scoring_arg loss_func_arg score_func_arg n_jobs_arg
     iid_arg refit_arg pre_dispatch_arg =
     (case BaseSearchCV_init api est scoring_arg loss_func_arg score_func_arg n_jobs_arg
             iid_arg refit_arg pre_dispatch_arg of
        Inl e \<Rightarrow> Inl e
      | Inr self \<Rightarrow>
          (case check_param_grid param_grid of
             Inl e \<Rightarrow> Inl e
           | Inr u \<Rightarrow> Inr (self, param_grid)))"

text \<open>\<^verbatim>\<open>BaseSearchCV.score\<close>. Reading an attribute that \<^verbatim>\<open>_fit\<close> has not set raises.\<close>

definition BaseSearchCV_score ::
  "('e, 'p, 'x, 'y, 'i) collaborators \<Rightarrow> ('e, 'f, 'p, 'x, 'y) BaseSearchCV \<Rightarrow> 'x \<Rightarrow> 'y option \<Rightarrow>
   error + score_value" where
  "BaseSearchCV_score api self X y =
     (case best_estimator_' self of
        None \<Rightarrow> Inl (AttributeError ''best_estimator_'')
      | Some best_estimator \<Rightarrow>
          if hasattr_score api best_estimator then score api best_estimator X y
          else
            (case scorer_' self of
               None \<Rightarrow> Inl (AttributeError ''scorer_'')
             | Some None \<Rightarrow>
                 Inl (ValueError (''No score function explicitly defined, '' @
                                  ''and the estimator doesn't provide one '' @
                                  repr api best_estimator))
             | Some (Some scorer) \<Rightarrow> call scorer best_estimator X y))"

subsection \<open>\<^verbatim>\<open>BaseSearchCV._fit\<close>: the scorer\<close>

text \<open>The two warnings of the legacy arguments.\<close>

definition loss_func_warning :: string where
  "loss_func_warning =
     ''Passing a loss function is '' @
     ''deprecated and will be removed in 0.15. '' @
     ''Either use strings or score objects.'' @
     ''The relevant new parameter is called '' @ [CHR 0x27, CHR 0x27] @
     ''scoring'' @ [CHR 0x27, CHR 0x27] @ ''. ''"

definition score_func_warning :: string where
  "score_func_warning =
     ''Passing function as ``score_func`` is '' @
     ''deprecated and will be removed in 0.15. '' @
     ''Either use strings or score objects.'' @
     ''The relevant new parameter is called '' @ [CHR 0x27, CHR 0x27] @
     ''scoring'' @ [CHR 0x27, CHR 0x27] @ ''.''"

text \<open>The chain of \<^verbatim>\<open>if\<close> and \<^verbatim>\<open>elif\<close> that sets \<^verbatim>\<open>scorer\<close>: the warnings it emits and the
  scorer. A string that \<^verbatim>\<open>SCORERS\<close> does not hold raises.\<close>

definition resolve_scorer ::
  "('e, 'f, 'x, 'y) metrics \<Rightarrow> ('e, 'f, 'p, 'x, 'y) BaseSearchCV \<Rightarrow>
   error + (string list \<times> ('e, 'x, 'y) scorer option)" where
  "resolve_scorer m self =
     (case loss_func self of
        Some f \<Rightarrow> Inr ([loss_func_warning], Some (Scorer m f False))
      | None \<Rightarrow>
          (case score_func self of
             Some f \<Rightarrow> Inr ([score_func_warning], Some (Scorer m f True))
           | None \<Rightarrow>
               (case scoring self of
                  Some (ScoringName name) \<Rightarrow>
                    (case SCORERS m name of
                       None \<Rightarrow> Inl (KeyError name)
                     | Some s \<Rightarrow> Inr ([], Some s))
                | Some (ScoringObject s) \<Rightarrow> Inr ([], Some s)
                | None \<Rightarrow> Inr ([], None))))"

text \<open>The precedence as the specification words it: \<^verbatim>\<open>scoring\<close> before \<^verbatim>\<open>score_func\<close> before
  \<^verbatim>\<open>loss_func\<close>.\<close>

definition spec_resolve_scorer ::
  "('e, 'f, 'x, 'y) metrics \<Rightarrow> ('e, 'f, 'p, 'x, 'y) BaseSearchCV \<Rightarrow>
   error + ('e, 'x, 'y) scorer option" where
  "spec_resolve_scorer m self =
     (case scoring self of
        Some (ScoringName name) \<Rightarrow>
          (case SCORERS m name of None \<Rightarrow> Inl (KeyError name) | Some s \<Rightarrow> Inr (Some s))
      | Some (ScoringObject s) \<Rightarrow> Inr (Some s)
      | None \<Rightarrow>
          (case score_func self of
             Some f \<Rightarrow> Inr (Some (Scorer m f True))
           | None \<Rightarrow>
               (case loss_func self of
                  Some f \<Rightarrow> Inr (Some (Scorer m f False))
                | None \<Rightarrow> Inr None)))"

subsection \<open>\<^verbatim>\<open>BaseSearchCV._fit\<close>: the dispatch\<close>

text \<open>The generator expression handed to \<^verbatim>\<open>Parallel\<close>: one delayed call of
  \<^verbatim>\<open>fit_grid_point\<close> for each configuration, in the order \<^verbatim>\<open>parameter_iterable\<close> yields them,
  and within a configuration for each fold of \<^verbatim>\<open>cv\<close>, in its order.\<close>

definition work_units ::
  "('e, 'p, 'x, 'y, 'i) collaborators \<Rightarrow> 'x \<Rightarrow> 'y option \<Rightarrow> 'e \<Rightarrow> ('e, 'x, 'y) scorer option \<Rightarrow>
   'p list \<Rightarrow> ('i \<times> 'i) list \<Rightarrow> (unit \<Rightarrow> error + (real \<times> 'p \<times> nat)) list" where
  "work_units api X y base_estimator scorer parameter_iterable cv =
     concat (map (\<lambda>parameters.
               map (\<lambda>(train, test) u.
                      fit_grid_point api X y base_estimator parameters train test scorer) cv)
             parameter_iterable)"

text \<open>Modelled from the spec: joblib's \<^verbatim>\<open>Parallel\<close>, whose source is not part of the module.
  The specification's execution substrate accepts a sequence of work closures, a
  parallelism degree and a pre-dispatch bound, and returns the results in submission
  order, whatever the order in which concurrent executions complete; a unit that fails
  fails the whole call; the default degree 1 is fully sequential. Here \<open>completion\<close> is the
  order in which the units complete, as positions in the sequence of closures: each result
  is stored at the position of its unit, the first failure met is raised, and with one job
  the units complete in submission order.\<close>

fun collect ::
  "(unit \<Rightarrow> error + 'r) list \<Rightarrow> nat list \<Rightarrow> 'r option list \<Rightarrow> error + 'r option list" where
  "collect tasks [] slots = Inr slots"
| "collect tasks (i # completion) slots =
     (if i < length tasks then
        (case (tasks ! i) () of
           Inl e \<Rightarrow> Inl e
         | Inr r \<Rightarrow> collect tasks completion (slots[i := Some r]))
      else collect tasks completion slots)"

definition Parallel ::
  "int \<Rightarrow> pre_dispatch \<Rightarrow> nat list \<Rightarrow> (unit \<Rightarrow> error + 'r) list \<Rightarrow> error + 'r list" where
  "Parallel jobs bound completion tasks =
     (let order = (if jobs = 1 then [0..<length tasks] else completion) in
      case collect tasks order (replicate (length tasks) None) of
        Inl e \<Rightarrow> Inl e
      | Inr slots \<Rightarrow> Inr (concat (map (\<lambda>slot. case slot of None \<Rightarrow> [] | Some r \<Rightarrow> [r]) slots)))"

text \<open>A completion order names every unit once.\<close>

definition completes_all :: "nat list \<Rightarrow> nat \<Rightarrow> bool" where
  "completes_all completion n = (sort completion = [0..<n])"

subsection \<open>\<^verbatim>\<open>BaseSearchCV._fit\<close>: the aggregation\<close>

text \<open>\<^verbatim>\<open>range(0, stop, step)\<close> for a positive step, and the slice \<^verbatim>\<open>xs[a:b]\<close>.\<close>

definition range_step :: "nat \<Rightarrow> nat \<Rightarrow> nat list" where
  "range_step stop step = map (\<lambda>k. k * step) [0..<(stop + step - 1) div step]"

definition slice :: "'a list \<Rightarrow> nat \<Rightarrow> nat \<Rightarrow> 'a list" where
  "slice xs a b = take (b - a) (drop a xs)"

text \<open>The inner loop over one group of results: the values of \<^verbatim>\<open>n_test_samples\<close>,
  \<^verbatim>\<open>score\<close> and \<^verbatim>\<open>all_scores\<close> after it.\<close>

definition accumulate :: "bool \<Rightarrow> (real \<times> 'p \<times> nat) list \<Rightarrow> nat \<times> real \<times> real list" where
  "accumulate iid_flag results =
     foldl (\<lambda>(n_test_samples, score, all_scores) (this_score, parameters, this_n_test_samples).
              if iid_flag then
                (n_test_samples + this_n_test_samples,
                 score + this_score * real this_n_test_samples,
                 all_scores @ [this_score])
              else (n_test_samples, score + this_score, all_scores @ [this_score]))
           (0, 0, []) results"

text \<open>The body of the outer loop for one group of results. \<^verbatim>\<open>parameters\<close> is what the
  inner loop left in it, the configuration of the group's last result; a group is never
  empty, since it starts below \<^verbatim>\<open>n_fits\<close>. Dividing by a zero count raises. (\<open>score'\<close> is
  the source's \<^verbatim>\<open>score\<close>.)\<close>

definition summarize ::
  "bool \<Rightarrow> nat \<Rightarrow> (real \<times> 'p \<times> nat) list \<Rightarrow> error + 'p CVScoreTuple" where
  "summarize iid_flag n_folds results =
     (case accumulate iid_flag results of
        (n_test_samples, score', all_scores) \<Rightarrow>
          if results = [] then Inl (NameError ''parameters'')
          else if iid_flag then
            if n_test_samples = 0 then Inl (ZeroDivisionError ''float division by zero'')
            else Inr \<lparr>parameters = fst (snd (last results)),
                      mean_validation_score = score' / real n_test_samples,
                      cv_validation_scores = all_scores\<rparr>
          else
            Inr \<lparr>parameters = fst (snd (last results)),
                 mean_validation_score = score' / real n_folds,
                 cv_validation_scores = all_scores\<rparr>)"

text \<open>A loop that appends a result at each step and raises at the first failing step.\<close>

fun for_collect :: "('a \<Rightarrow> error + 'b) \<Rightarrow> 'a list \<Rightarrow> error + 'b list" where
  "for_collect body [] = Inr []"
| "for_collect body (x # xs) =
     (case body x of
        Inl e \<Rightarrow> Inl e
      | Inr r \<Rightarrow> (case for_collect body xs of Inl e \<Rightarrow> Inl e | Inr rs \<Rightarrow> Inr (r # rs)))"

text \<open>The outer loop \<^verbatim>\<open>for grid_start in range(0, n_fits, n_folds)\<close>, whose value is
  \<^verbatim>\<open>cv_scores\<close>. \<^verbatim>\<open>range\<close> raises for a zero step.\<close>

definition aggregate ::
  "bool \<Rightarrow> (real \<times> 'p \<times> nat) list \<Rightarrow> nat \<Rightarrow> error + 'p CVScoreTuple list" where
  "aggregate iid_flag out n_folds =
     (let n_fits = length out in
      if n_folds = 0 then Inl (ValueError ''range() arg 3 must not be zero'')
      else
        for_collect (\<lambda>grid_start.
                       summarize iid_flag n_folds (slice out grid_start (grid_start + n_folds)))
                    (range_step n_fits n_folds))"

subsection \<open>\<^verbatim>\<open>BaseSearchCV._fit\<close>: the best configuration\<close>

text \<open>\<^verbatim>\<open>getattr(self.scorer_, 'greater_is_better', True)\<close>.\<close>

definition getattr_greater_is_better :: "('e, 'x, 'y) scorer option \<Rightarrow> bool" where
  "getattr_greater_is_better s =
     (case s of
        None \<Rightarrow> True
      | Some scorer \<Rightarrow> (case greater_is_better scorer of None \<Rightarrow> True | Some b \<Rightarrow> b))"

text \<open>\<^verbatim>\<open>sorted(cv_scores, key=lambda x: x.mean_validation_score, reverse=...)[0]\<close>.\<close>

definition select_best :: "bool \<Rightarrow> 'p CVScoreTuple list \<Rightarrow> error + 'p CVScoreTuple" where
  "select_best reverse cv_scores =
     (case sorted_py mean_validation_score reverse cv_scores of
        [] \<Rightarrow> Inl (IndexError ''list index out of range'')
      | best # rest \<Rightarrow> Inr best)"

subsection \<open>\<^verbatim>\<open>BaseSearchCV._fit\<close>\<close>

text \<open>The refit on the whole data.\<close>

definition refit_best ::
  "('e, 'p, 'x, 'y, 'i) collaborators \<Rightarrow> 'e \<Rightarrow> 'p \<Rightarrow> 'x \<Rightarrow> 'y option \<Rightarrow> error + 'e" where
  "refit_best api base_estimator best_parameters X y =
     (case set_params api (clone api base_estimator) best_parameters of
        Inl e \<Rightarrow> Inl e
      | Inr best_estimator \<Rightarrow> fit api best_estimator X y)"

text \<open>The part of \<^verbatim>\<open>_fit\<close> that follows the dispatch: from the list \<^verbatim>\<open>out\<close> of results it
  sets \<^verbatim>\<open>cv_scores_\<close>, \<^verbatim>\<open>best_params_\<close>, \<^verbatim>\<open>best_score_\<close> and, on a refit,
  \<^verbatim>\<open>best_estimator_\<close>; \<^verbatim>\<open>scorer_\<close> has been set when it is reached. The value is the
  exception raised, if any, and the search object with the attributes set up to that
  point.\<close>

definition process_out ::
  "('e, 'p, 'x, 'y, 'i) collaborators \<Rightarrow> ('e, 'f, 'p, 'x, 'y) BaseSearchCV \<Rightarrow> 'e \<Rightarrow> 'x \<Rightarrow>
   'y option \<Rightarrow> (real \<times> 'p \<times> nat) list \<Rightarrow> nat \<Rightarrow>
   error option \<times> ('e, 'f, 'p, 'x, 'y) BaseSearchCV" where
  "process_out api self base_estimator X y out n_folds =
     (case aggregate (iid self) out n_folds of
        Inl e \<Rightarrow> (Some e, self)
      | Inr cv_scores \<Rightarrow>
          let self = self\<lparr>cv_scores_' := Some cv_scores\<rparr>;
              reverse = getattr_greater_is_better (case scorer_' self of None \<Rightarrow> None | Some s \<Rightarrow> s)
          in
          (case select_best reverse cv_scores of
             Inl e \<Rightarrow> (Some e, self)
           | Inr best \<Rightarrow>
               let self = self\<lparr>best_params_' := Some (parameters best),
                               best_score_' := Some (mean_validation_score best)\<rparr>
               in
               if refit self then
                 (case refit_best api base_estimator (parameters best) X y of
                    Inl e \<Rightarrow> (Some e, self)
                  | Inr best_estimator \<Rightarrow>
                      (None, self\<lparr>best_estimator_' := Some best_estimator\<rparr>))
               else (None, self)))"

text \<open>\<^verbatim>\<open>_fit\<close>, on data \<open>X\<close> and \<open>y\<close> that \<^verbatim>\<open>check_arrays\<close> has passed and with \<open>cv\<close> the folds
  that \<^verbatim>\<open>check_cv\<close> returned; \<open>completion\<close> is the order in which the work units complete.
  The two counts that the message of the length check interpolates are left out of it.\<close>

definition fit_search ::
  "('e, 'p, 'x, 'y, 'i) collaborators \<Rightarrow> ('e, 'f, 'x, 'y) metrics \<Rightarrow> nat list \<Rightarrow>
   ('e, 'f, 'p, 'x, 'y) BaseSearchCV \<Rightarrow> 'x \<Rightarrow> 'y option \<Rightarrow> 'p list \<Rightarrow> ('i \<times> 'i) list \<Rightarrow>
   error option \<times> ('e, 'f, 'p, 'x, 'y) BaseSearchCV" where
  "fit_search api m completion self X y parameter_iterable cv =
     (let n_samples = num_samples api X in
      case resolve_scorer m self of
        Inl e \<Rightarrow> (Some e, self)
      | Inr (warnings, scorer) \<Rightarrow>
          let self = self\<lparr>scorer_' := Some scorer\<rparr> in
          if (case y of None \<Rightarrow> False | Some t \<Rightarrow> len_targets api t \<noteq> n_samples) then
            (Some (ValueError (''Target variable (y) has a different number '' @
                               ''of samples than data (X)'')), self)
          else
            let base_estimator = clone api (estimator self) in
            (case Parallel (n_jobs self) (pre_dispatch self) completion
                    (work_units api X y base_estimator scorer parameter_iterable cv) of
               Inl e \<Rightarrow> (Some e, self)
             | Inr out \<Rightarrow> process_out api self base_estimator X y out (length cv)))"

text \<open>\<^verbatim>\<open>GridSearchCV.fit\<close> calls \<^verbatim>\<open>_fit\<close> on the configurations of a \<^verbatim>\<open>ParameterGrid\<close>.\<close>

definition GridSearchCV_fit ::
  "('e, 'v config, 'x, 'y, 'i) collaborators \<Rightarrow> ('e, 'f, 'x, 'y) metrics \<Rightarrow> nat list \<Rightarrow>
   ('e, 'f, 'v config, 'x, 'y) BaseSearchCV \<Rightarrow> 'v list param_grid \<Rightarrow> 'x \<Rightarrow> 'y option \<Rightarrow>
   ('i \<times> 'i) list \<Rightarrow> error option \<times> ('e, 'f, 'v config, 'x, 'y) BaseSearchCV" where
  "GridSearchCV_fit api m completion self param_grid X y cv =
     fit_search api m completion self X y (ParameterGrid_iter (ParameterGrid param_grid)) cv"

subsection \<open>Example inputs\<close>

text \<open>An estimator class over numbers, for running the definitions on concrete inputs:
  an estimator is a number, data and targets are lists of numbers, index sets are lists of
  positions; fitting adds the size of the training data, and the estimator's own score is
  its number.\<close>

definition example_api :: "(nat, nat, nat list, nat list, nat list) collaborators" where
  "example_api =
     \<lparr>clone = (\<lambda>e. e), set_params = (\<lambda>e p. Inr p),
      hasattr_fit = (\<lambda>e. True), hasattr_predict = (\<lambda>e. True), hasattr_score = (\<lambda>e. True),
      callable_kernel = (\<lambda>e. False), pairwise = (\<lambda>e. False),
      repr = (\<lambda>e. ''Estimator()''), type_repr = (\<lambda>e. ''<class Estimator>''),
      fit = (\<lambda>e X y. if X = [] then Inl (CollaboratorError ''empty training set'')
                       else Inr (e + length X)),
      score = (\<lambda>e X y. Inr (Number (real e))),
      hasattr_shape = (\<lambda>X. False), shape = (\<lambda>X. (length X, 1)),
      list_items = (\<lambda>X a. map (\<lambda>i. X ! i) a),
      ix_rows = (\<lambda>X a b. map (\<lambda>i. X ! i) a),
      mask_rows = (\<lambda>X a. map (\<lambda>i. X ! i) a),
      mask_targets = (\<lambda>y a. map (\<lambda>i. y ! i) a),
      num_samples = length, len_targets = length\<rparr>"
text \<open>A table of scorers with one entry, and a search object given both a scoring name and
  a loss function.\<close>

definition example_metrics :: "(nat, nat, nat list, nat list) metrics" where
  "example_metrics =
     \<lparr>SCORERS = [''accuracy'' \<mapsto> \<lparr>call = (\<lambda>e X y. Inr (Number 1)),
                                   greater_is_better = Some True\<rparr>],
      score_with = (\<lambda>f e X y. Inr (Number (real (f + e))))\<rparr>"

definition example_search :: "(nat, nat, nat, nat list, nat list) BaseSearchCV" where
  "example_search =
     \<lparr>estimator = 0, scoring = Some (ScoringName ''accuracy''), loss_func = Some 7,
      score_func = None, n_jobs = 1, iid = True, refit = True,
      pre_dispatch = Expression ''2*n_jobs'', scorer_' = None, cv_scores_' = None,
      best_params_' = None, best_score_' = None, best_estimator_' = None\<rparr>"

(*PROPS*)

section \<open>Properties\<close>

subsection \<open>The parameter grid\<close>

lemma product_step:
  "concat (map (\<lambda>z. map ((@) z) P) (map (\<lambda>y. x @ [y]) pool)) =
   map ((@) x) (concat (map (\<lambda>y. map (Cons y) P) pool))"
  by (induction pool) simp_all

lemma product_foldl:
  "foldl (\<lambda>result pool. concat (map (\<lambda>x. map (\<lambda>y. x @ [y]) pool) result)) acc pools =
   concat (map (\<lambda>x. map (\<lambda>t. x @ t) (product_lists pools)) acc)"
proof (induction pools arbitrary: acc)
  case Nil
  show ?case by (induction acc) simp_all
next
  case (Cons pool pools)
  show ?case
  proof -
    have "concat (map (\<lambda>x. map ((@) x) (product_lists pools))
            (concat (map (\<lambda>x. map (\<lambda>y. x @ [y]) pool) acc))) =
          concat (map (\<lambda>x. map ((@) x) (product_lists (pool # pools))) acc)"
    proof (induction acc)
      case Nil
      show ?case by simp
    next
      case (Cons a acc)
      show ?case using product_step [of "product_lists pools" a pool]
        by (simp add: Cons.IH)
    qed
    then show ?thesis by (simp add: Cons.IH)
  qed
qed

lemma itertools_product_eq: "itertools_product pools = product_lists pools"
  by (simp add: itertools_product_def product_foldl map_idI)

lemma foldl_update:
  "foldl (\<lambda>m (k, v). m(k \<mapsto> v)) m kvs = m ++ map_of (rev kvs)"
  by (induction kvs arbitrary: m) (auto simp: map_add_upd_left)

lemma dict_Cons:
  "k \<notin> fst ` set kvs \<Longrightarrow> dict ((k, v) # kvs) = (dict kvs)(k \<mapsto> v)"
  by (simp add: dict_def foldl_update map_add_upd_left dom_map_of_conv_image_fst)

lemma map_insort_key_fst:
  "map fst (insort_key fst x xs) = insort (fst x) (map fst xs)"
  by (induction xs) auto

lemma map_sort_key_fst: "map fst (sort_key fst xs) = sort (map fst xs)"
  by (induction xs) (auto simp: map_insort_key_fst)

lemma prod_list_insort_key:
  "prod_list (map f (insort_key g x xs)) = f x * prod_list (map f xs)"
  for f :: "'a \<Rightarrow> nat"
  by (induction xs) auto

lemma prod_list_sort_key:
  "prod_list (map f (sort_key g xs)) = prod_list (map f xs)"
  for f :: "'a \<Rightarrow> nat"
  by (induction xs) (auto simp: prod_list_insort_key)

lemma foldl_mult: "foldl (*) n ns = n * prod_list ns" for n :: nat
  by (induction ns arbitrary: n) (auto simp: mult.assoc)

lemma len_group_eq: "len_group p = prod_list (map (\<lambda>(k, v). length v) p)"
  by (auto simp: len_group_def foldl_mult split: list.splits)

lemma dict_zip_Cons:
  "k \<notin> set ks \<Longrightarrow> dict (zip (k # ks) (x # t)) = (dict (zip ks t))(k \<mapsto> x)"
proof -
  assume "k \<notin> set ks"
  then have "k \<notin> fst ` set (zip ks t)" by (auto dest: set_zip_leftD)
  then show ?thesis using dict_Cons [of k "zip ks t" x] by simp
qed

lemma cartesian_eq:
  "length ks = length vss \<Longrightarrow> distinct ks \<Longrightarrow>
   map (\<lambda>v. dict (zip ks v)) (product_lists vss) = spec_cartesian (zip ks vss)"
proof (induction ks vss rule: list_induct2)
  case Nil
  show ?case by (simp add: dict_def)
next
  case (Cons k ks vs vss)
  have notin: "k \<notin> set ks" and dist: "distinct ks" using Cons.prems by simp_all
  have "map (\<lambda>v. dict (zip (k # ks) v)) (product_lists (vs # vss)) =
        concat (map (\<lambda>x. map (\<lambda>t. dict (zip (k # ks) (x # t))) (product_lists vss)) vs)"
    by (simp add: map_concat o_def)
  also have "\<dots> = concat (map (\<lambda>x. map (\<lambda>c. c(k \<mapsto> x))
                       (map (\<lambda>t. dict (zip ks t)) (product_lists vss))) vs)"
    using notin by (simp add: dict_zip_Cons o_def del: zip_Cons_Cons)
  also have "\<dots> = spec_cartesian (zip (k # ks) (vs # vss))"
    using Cons.IH [OF dist] by simp
  finally show ?case .
qed

lemma iter_group_eq:
  assumes "distinct (map fst p)"
  shows "iter_group p = spec_cartesian (sort_key fst p)"
proof (cases "sort_key fst p = []")
  case True
  then show ?thesis by (simp add: iter_group_def)
next
  case False
  have "distinct (map fst (sort_key fst p))"
    using assms by (simp add: map_sort_key_fst)
  then have "map (\<lambda>v. dict (zip (map fst (sort_key fst p)) v))
               (product_lists (map snd (sort_key fst p))) =
             spec_cartesian (zip (map fst (sort_key fst p)) (map snd (sort_key fst p)))"
    by (intro cartesian_eq) simp_all
  then show ?thesis
    using False by (simp add: iter_group_def Let_def itertools_product_eq zip_map_fst_snd)
qed

lemma length_iter_group: "length (iter_group p) = len_group p"
proof (cases "sort_key fst p = []")
  case True
  then have "p = []" by (metis length_0_conv length_sort)
  then show ?thesis by (simp add: iter_group_def len_group_def)
next
  case False
  have "length (product_lists (map snd (sort_key fst p))) =
        prod_list (map (\<lambda>(k, v). length v) (sort_key fst p))"
    by (simp add: length_product_lists prod_list.eq_foldr o_def case_prod_unfold)
  then show ?thesis
    using False
    by (simp add: iter_group_def Let_def itertools_product_eq len_group_eq prod_list_sort_key)
qed

lemma length_ParameterGrid_iter: "length (ParameterGrid_iter G) = ParameterGrid_len G"
  by (simp add: ParameterGrid_iter_def ParameterGrid_len_def length_concat o_def
      length_iter_group)

lemma ParameterGrid_iter_eq:
  "well_formed_groups G \<Longrightarrow> ParameterGrid_iter G = spec_configurations G"
  by (induction G)
     (simp_all add: ParameterGrid_iter_def spec_configurations_def well_formed_groups_def
       iter_group_eq)

lemma ParameterGrid_len_eq: "ParameterGrid_len G = spec_size G"
  by (induction G) (simp_all add: ParameterGrid_len_def spec_size_def len_group_eq)

text \<open>The grid of the class documentation, with the groups' items given out of order.\<close>

lemma sort_key_example:
  "sort_key fst [(''kernel'', [''rbf'']), (''gamma'', [''1'', ''10''])] =
   [(''gamma'', [''1'', ''10'']), (''kernel'', [''rbf''])]"
  by code_simp

lemma ParameterGrid_iter_example:
  "ParameterGrid_iter (ParameterGrid (Sequence
     [[(''kernel'', [''linear''])], [(''kernel'', [''rbf'']), (''gamma'', [''1'', ''10''])]])) =
   [[''kernel'' \<mapsto> ''linear''],
    [''gamma'' \<mapsto> ''1'', ''kernel'' \<mapsto> ''rbf''],
    [''gamma'' \<mapsto> ''10'', ''kernel'' \<mapsto> ''rbf'']]"
  by (simp add: ParameterGrid_iter_def iter_group_def sort_key_example itertools_product_def
      dict_def)

text \<open>
  Claim C1. For a grid descriptor whose groups are dictionaries (keys pairwise distinct),
  iterating the \<^verbatim>\<open>ParameterGrid\<close> yields the concatenation, over the groups in the given
  order, of the Cartesian product of each group's value sequences, the names sorted and
  the last sorted name varying fastest; \<^verbatim>\<open>__len__\<close> is the number of configurations
  yielded, which is the sum over the groups of the product of the candidate counts; a
  single mapping is the one-element sequence of groups; a group with no parameter yields
  the empty mapping alone.
\<close>

theorem ParameterGrid_enumeration:
  fixes param_grid :: "'v list param_grid"
  assumes "well_formed_groups (ParameterGrid param_grid)"
  shows "ParameterGrid_iter (ParameterGrid param_grid) =
           spec_configurations (ParameterGrid param_grid)
       \<and> ParameterGrid_len (ParameterGrid param_grid) =
           length (ParameterGrid_iter (ParameterGrid param_grid))
       \<and> ParameterGrid_len (ParameterGrid param_grid) = spec_size (ParameterGrid param_grid)
       \<and> (\<forall>p :: 'v axis_group. ParameterGrid (Mapping p) = ParameterGrid (Sequence [p]))
       \<and> iter_group [] = [Map.empty :: 'v config]"
proof (intro conjI allI)
  show "ParameterGrid_iter (ParameterGrid param_grid) =
        spec_configurations (ParameterGrid param_grid)"
    using assms by (rule ParameterGrid_iter_eq)
  show "ParameterGrid_len (ParameterGrid param_grid) =
        length (ParameterGrid_iter (ParameterGrid param_grid))"
    by (simp only: length_ParameterGrid_iter)
  show "ParameterGrid_len (ParameterGrid param_grid) = spec_size (ParameterGrid param_grid)"
    by (rule ParameterGrid_len_eq)
  show "ParameterGrid (Mapping p) = ParameterGrid (Sequence [p])" for p :: "'v axis_group"
    by simp
  show "iter_group [] = [Map.empty :: 'v config]"
    by (simp add: iter_group_def)
qed

theorem ParameterGrid_enumeration_witness:
  "well_formed_groups (ParameterGrid (Sequence
     [[(''kernel'', [''linear''])], [(''kernel'', [''rbf'']), (''gamma'', [''1'', ''10''])]]))
   \<and> ParameterGrid_iter (ParameterGrid (Sequence
     [[(''kernel'', [''linear''])], [(''kernel'', [''rbf'']), (''gamma'', [''1'', ''10''])]])) =
     spec_configurations (ParameterGrid (Sequence
     [[(''kernel'', [''linear''])], [(''kernel'', [''rbf'']), (''gamma'', [''1'', ''10''])]]))
   \<and> ParameterGrid_len (ParameterGrid (Sequence
     [[(''kernel'', [''linear''])], [(''kernel'', [''rbf'']), (''gamma'', [''1'', ''10''])]])) = 3"
proof -
  let ?G = "Sequence
     [[(''kernel'', [''linear''])], [(''kernel'', [''rbf'']), (''gamma'', [''1'', ''10''])]]"
  have wf: "well_formed_groups (ParameterGrid ?G)"
    by (simp add: well_formed_groups_def)
  have sz: "spec_size (ParameterGrid ?G) = 3"
    by (simp add: spec_size_def)
  note main = ParameterGrid_enumeration [OF wf]
  from main have "ParameterGrid_len (ParameterGrid ?G) = spec_size (ParameterGrid ?G)"
    by (elim conjE)
  with sz have "ParameterGrid_len (ParameterGrid ?G) = 3" by (simp only:)
  moreover from main have "ParameterGrid_iter (ParameterGrid ?G) =
      spec_configurations (ParameterGrid ?G)"
    by (elim conjE)
  ultimately show ?thesis using wf by (intro conjI)
qed

subsection \<open>The parameter sampler\<close>

lemma draw_value_ok:
  assumes "randint_in_range np" "v \<noteq> []"
  shows "\<exists>x gs'. draw_value np v gs = Inr (x, gs')"
proof -
  have "fst (randint np g (length v)) < length v" for g
    using assms by (simp add: randint_in_range_def)
  then show ?thesis
    using assms(2)
    by (auto simp: draw_value_def Let_def split: option.splits prod.splits)
       (metis fst_conv)+
qed

lemma sample_params_ok:
  assumes "randint_in_range np"
  shows "nonempty_candidates items \<Longrightarrow> \<exists>c gs'. sample_params np items params gs = Inr (c, gs')"
proof (induction items arbitrary: params gs)
  case Nil
  show ?case by simp
next
  case (Cons item items)
  obtain k v where item: "item = (k, v)" by (cases item)
  from Cons.prems have rest: "nonempty_candidates items"
    by (simp add: nonempty_candidates_def)
  show ?case
  proof (cases v)
    case (Rvs d)
    obtain x g' where r: "rvs np d (global gs) = (x, g')" by (cases "rvs np d (global gs)")
    show ?thesis using Cons.IH [OF rest] item Rvs r by simp
  next
    case (Values xs)
    with Cons.prems item have ne: "xs \<noteq> []" by (simp add: nonempty_candidates_def)
    obtain x gs' where d: "draw_value np xs gs = Inr (x, gs')"
      using draw_value_ok [OF assms ne] by blast
    show ?thesis using Cons.IH [OF rest] item Values d by simp
  qed
qed

lemma sample_loop_ok:
  assumes "randint_in_range np" "nonempty_candidates items"
  shows "\<exists>cs gs'. sample_loop np items n gs = Inr (cs, gs') \<and> length cs = n"
proof (induction n arbitrary: gs)
  case 0
  show ?case by simp
next
  case (Suc n)
  obtain c gs1 where a: "sample_params np items Map.empty gs = Inr (c, gs1)"
    using sample_params_ok [OF assms] by blast
  obtain cs gs2 where b: "sample_loop np items n gs1 = Inr (cs, gs2)" "length cs = n"
    using Suc.IH by blast
  show ?case using a b by simp
qed

lemma draw_value_same_rnd:
  assumes "same_rnd a b"
  shows "rel_sum (=) (\<lambda>(x, a') (y, b'). x = y \<and> same_rnd a' b')
           (draw_value np v a) (draw_value np v b)"
proof -
  obtain r where r: "rnd a = Some r" "rnd b = Some r"
    using assms by (cases "rnd a") (simp_all add: same_rnd_def)
  show ?thesis
    by (cases "randint np r (length v)") (simp add: draw_value_def r same_rnd_def)
qed

lemma sample_params_same_rnd:
  "only_candidate_lists items \<Longrightarrow> same_rnd a b \<Longrightarrow>
   rel_sum (=) (\<lambda>(c, a') (d, b'). c = d \<and> same_rnd a' b')
     (sample_params np items params a) (sample_params np items params b)"
proof (induction items arbitrary: params a b)
  case Nil
  then show ?case by simp
next
  case (Cons item items)
  obtain k v where item: "item = (k, v)" by (cases item)
  from Cons.prems(1) item obtain xs where v: "v = Values xs"
    by (cases v) (simp_all add: only_candidate_lists_def)
  from Cons.prems(1) have rest: "only_candidate_lists items"
    by (simp add: only_candidate_lists_def)
  have d: "rel_sum (=) (\<lambda>(x, a') (y, b'). x = y \<and> same_rnd a' b')
           (draw_value np xs a) (draw_value np xs b)"
    using Cons.prems(2) by (rule draw_value_same_rnd)
  show ?case
  proof (cases "draw_value np xs a")
    case (Inl e)
    with d show ?thesis by (cases "draw_value np xs b") (simp_all add: item v)
  next
    case (Inr xa)
    obtain x a' where xa: "xa = (x, a')" by (cases xa)
    from d Inr xa obtain b' where db: "draw_value np xs b = Inr (x, b')" and s: "same_rnd a' b'"
      by (cases "draw_value np xs b") auto
    show ?thesis using Cons.IH [OF rest s] Inr xa db by (simp add: item v)
  qed
qed

lemma sample_loop_same_rnd:
  assumes "only_candidate_lists items"
  shows "same_rnd a b \<Longrightarrow>
   rel_sum (=) (\<lambda>(cs, a') (ds, b'). cs = ds \<and> same_rnd a' b')
     (sample_loop np items n a) (sample_loop np items n b)"
proof (induction n arbitrary: a b)
  case 0
  then show ?case by simp
next
  case (Suc n)
  have p: "rel_sum (=) (\<lambda>(c, a') (d, b'). c = d \<and> same_rnd a' b')
     (sample_params np items Map.empty a) (sample_params np items Map.empty b)"
    using assms Suc.prems by (rule sample_params_same_rnd)
  show ?case
  proof (cases "sample_params np items Map.empty a")
    case (Inl e)
    with p show ?thesis by (cases "sample_params np items Map.empty b") simp_all
  next
    case (Inr ca)
    obtain c a' where ca: "ca = (c, a')" by (cases ca)
    from p Inr ca obtain b' where pb: "sample_params np items Map.empty b = Inr (c, b')"
      and s: "same_rnd a' b'"
      by (cases "sample_params np items Map.empty b") auto
    have l: "rel_sum (=) (\<lambda>(cs, a') (ds, b'). cs = ds \<and> same_rnd a' b')
       (sample_loop np items n a') (sample_loop np items n b')"
      using s by (rule Suc.IH)
    show ?thesis
    proof (cases "sample_loop np items n a'")
      case (Inl e)
      with l show ?thesis using Inr ca pb by (cases "sample_loop np items n b'") simp_all
    next
      case (Inr csa)
      with l show ?thesis using \<open>sample_params np items Map.empty a = Inr ca\<close> ca pb
        by (cases "sample_loop np items n b'") (auto split: prod.splits)
    qed
  qed
qed

lemma rel_sum_fst_eq:
  "rel_sum (=) (\<lambda>(cs, a') (ds, b'). cs = ds \<and> P a' b') u w \<Longrightarrow>
   map_sum id fst u = map_sum id fst w"
  by (cases u; cases w) auto

lemma only_candidate_lists_sort:
  "only_candidate_lists (sort_key fst items) = only_candidate_lists items"
  by (simp add: only_candidate_lists_def list_all_iff)

lemma nonempty_candidates_sort:
  "nonempty_candidates (sort_key fst items) = nonempty_candidates items"
  by (simp add: nonempty_candidates_def list_all_iff)

lemma seeded_pass_independent_of_global:
  assumes "only_candidate_lists (param_distributions self)"
    and "random_state self = IntSeed seed"
  shows "map_sum id fst (ParameterSampler_iter np self g) =
         map_sum id fst (ParameterSampler_iter np self g')"
proof -
  have "same_rnd (check_random_state np (random_state self) g)
          (check_random_state np (random_state self) g')"
    by (simp add: assms(2) same_rnd_def)
  moreover have "only_candidate_lists (sort_key fst (param_distributions self))"
    by (simp add: only_candidate_lists_sort assms(1))
  ultimately have "rel_sum (=) (\<lambda>(cs, a') (ds, b'). cs = ds \<and> same_rnd a' b')
     (sample_loop np (sort_key fst (param_distributions self)) (nat (n_iter self))
        (check_random_state np (random_state self) g))
     (sample_loop np (sort_key fst (param_distributions self)) (nat (n_iter self))
        (check_random_state np (random_state self) g'))"
    by (intro sample_loop_same_rnd)
  then show ?thesis
    unfolding ParameterSampler_iter_def Let_def by (rule rel_sum_fst_eq)
qed

lemma same_keys_same_items:
  assumes "map fst xs = map fst ys" "set xs = set ys" "distinct (map fst xs)"
  shows "xs = ys"
proof (rule nth_equalityI)
  show len: "length xs = length ys" using assms(1) by (metis length_map)
  fix i assume i: "i < length xs"
  then have "xs ! i \<in> set ys" using assms(2) by (metis nth_mem)
  then obtain j where j: "j < length ys" "ys ! j = xs ! i" by (auto simp: in_set_conv_nth)
  have "map fst ys ! j = map fst ys ! i"
    using i j len assms(1) by (metis nth_map)
  then have "j = i"
    using assms(1,3) i j len by (metis length_map nth_eq_iff_index_eq)
  with j show "xs ! i = ys ! i" by simp
qed

lemma sort_key_fst_unique:
  assumes "distinct (map fst p)" "distinct (map fst q)" "set p = set q"
  shows "sort_key fst p = sort_key fst q"
proof (rule same_keys_same_items)
  have "set (map fst p) = set (map fst q)" using assms(3) by simp
  then show "map fst (sort_key fst p) = map fst (sort_key fst q)"
    using assms(1,2) by (simp add: map_sort_key_fst sorted_distinct_set_unique)
  show "set (sort_key fst p) = set (sort_key fst q)" using assms(3) by simp
  show "distinct (map fst (sort_key fst p))" using assms(1) by (simp add: map_sort_key_fst)
qed

lemma sample_params_dom:
  "sample_params np items params gs = Inr (c, gs') \<Longrightarrow> dom c = dom params \<union> fst ` set items"
proof (induction items arbitrary: params gs)
  case Nil
  then show ?case by auto
next
  case (Cons item items)
  obtain k v where item: "item = (k, v)" by (cases item)
  show ?case
  proof (cases v)
    case (Rvs d)
    obtain x g' where r: "rvs np d (global gs) = (x, g')" by (cases "rvs np d (global gs)")
    from Cons.prems have "sample_params np items (params(k \<mapsto> x)) (gs\<lparr>global := g'\<rparr>) = Inr (c, gs')"
      by (simp add: item Rvs r)
    from Cons.IH [OF this] show ?thesis by (auto simp: item)
  next
    case (Values xs)
    from Cons.prems obtain x gs1 where "draw_value np xs gs = Inr (x, gs1)"
      and "sample_params np items (params(k \<mapsto> x)) gs1 = Inr (c, gs')"
      by (auto simp: item Values split: sum.splits)
    from Cons.IH [OF this(2)] show ?thesis by (auto simp: item)
  qed
qed

lemma sample_loop_dom:
  "sample_loop np items n gs = Inr (cs, gs') \<Longrightarrow> c \<in> set cs \<Longrightarrow> dom c = fst ` set items"
proof (induction n arbitrary: gs cs)
  case 0
  then show ?case by simp
next
  case (Suc n)
  from Suc.prems(1) obtain c1 gs1 rest where
    a: "sample_params np items Map.empty gs = Inr (c1, gs1)" and
    b: "sample_loop np items n gs1 = Inr (rest, gs')" and cs: "cs = c1 # rest"
    by (auto split: sum.splits)
  from Suc.prems(2) cs consider "c = c1" | "c \<in> set rest" by auto
  then show ?case
  proof cases
    case 1
    with sample_params_dom [OF a] show ?thesis by simp
  next
    case 2
    with Suc.IH [OF b] show ?thesis by simp
  qed
qed

text \<open>
  Claim C6. For a sampler with a count \<open>n_iter \<ge> 0\<close> whose candidate lists are not empty
  (and \<^verbatim>\<open>randint\<close> answering in range): \<^verbatim>\<open>__len__\<close> returns \<open>n_iter\<close>; a pass yields
  exactly \<open>n_iter\<close> configurations, each assigning every parameter name; the pass depends
  on the dictionary only through its items in sorted name order, whatever order the
  dictionary holds them in; and when every parameter is a candidate list and the random
  state is an integer seed, any two passes yield the same configurations, whatever the
  state of the global generator (distributions with \<^verbatim>\<open>rvs\<close> draw from the global generator
  and are exempt).
\<close>

theorem ParameterSampler_contract:
  fixes np :: "('v, 'd, 'g) numpy_random" and self :: "('v, 'd, 'g) ParameterSampler"
  assumes "0 \<le> n_iter self" and "randint_in_range np"
    and "nonempty_candidates (param_distributions self)"
  shows "ParameterSampler_len self = n_iter self
    \<and> (\<exists>cs gs. ParameterSampler_iter np self g = Inr (cs, gs)
          \<and> int (length cs) = n_iter self
          \<and> (\<forall>c \<in> set cs. dom c = fst ` set (param_distributions self)))
    \<and> (\<forall>other :: ('v, 'd, 'g) ParameterSampler.
          distinct (map fst (param_distributions self)) \<longrightarrow>
          distinct (map fst (param_distributions other)) \<longrightarrow>
          set (param_distributions other) = set (param_distributions self) \<longrightarrow>
          n_iter other = n_iter self \<longrightarrow> random_state other = random_state self \<longrightarrow>
          ParameterSampler_iter np other g = ParameterSampler_iter np self g)
    \<and> (only_candidate_lists (param_distributions self) \<longrightarrow>
        (\<exists>seed. random_state self = IntSeed seed) \<longrightarrow>
        (\<forall>g'. map_sum id fst (ParameterSampler_iter np self g') =
              map_sum id fst (ParameterSampler_iter np self g)))"
proof (intro conjI allI impI)
  show "ParameterSampler_len self = n_iter self"
    by (simp add: ParameterSampler_len_def)
next
  let ?items = "sort_key fst (param_distributions self)"
  have "nonempty_candidates ?items"
    using assms(3) by (simp add: nonempty_candidates_sort)
  from sample_loop_ok [OF assms(2) this]
  obtain cs gs where r: "sample_loop np ?items (nat (n_iter self))
      (check_random_state np (random_state self) g) = Inr (cs, gs)"
    and l: "length cs = nat (n_iter self)"
    by blast
  have "\<forall>c \<in> set cs. dom c = fst ` set (param_distributions self)"
    using sample_loop_dom [OF r] by simp
  then show "\<exists>cs gs. ParameterSampler_iter np self g = Inr (cs, gs)
          \<and> int (length cs) = n_iter self
          \<and> (\<forall>c \<in> set cs. dom c = fst ` set (param_distributions self))"
    using r l assms(1) by (simp add: ParameterSampler_iter_def)
next
  fix other :: "('v, 'd, 'g) ParameterSampler"
  assume "distinct (map fst (param_distributions self))"
    "distinct (map fst (param_distributions other))"
    "set (param_distributions other) = set (param_distributions self)"
    "n_iter other = n_iter self" "random_state other = random_state self"
  then show "ParameterSampler_iter np other g = ParameterSampler_iter np self g"
    using sort_key_fst_unique [of "param_distributions other" "param_distributions self"]
    by (simp add: ParameterSampler_iter_def)
next
  fix g'
  assume "only_candidate_lists (param_distributions self)" "\<exists>seed. random_state self = IntSeed seed"
  then obtain seed where "only_candidate_lists (param_distributions self)"
    "random_state self = IntSeed seed" by blast
  then show "map_sum id fst (ParameterSampler_iter np self g') =
             map_sum id fst (ParameterSampler_iter np self g)"
    by (rule seeded_pass_independent_of_global)
qed

lemma sort_key_sampler_example:
  "sort_key fst [(''b'', Values [10, 20] :: (nat, nat) distribution), (''a'', Values [1, 2, 3])] =
   [(''a'', Values [1, 2, 3]), (''b'', Values [10, 20])]"
  by code_simp

lemma ParameterSampler_iter_example:
  "ParameterSampler_iter example_random example_sampler g =
   Inr ([[''a'' \<mapsto> 1, ''b'' \<mapsto> 20], [''a'' \<mapsto> 3, ''b'' \<mapsto> 20]],
        \<lparr>global = g, rnd = Some 4\<rparr>)"
  by (simp add: ParameterSampler_iter_def example_random_def example_sampler_def
      sort_key_sampler_example draw_value_def numeral_2_eq_2 mod_Suc)

theorem ParameterSampler_contract_witness:
  "0 \<le> n_iter example_sampler
   \<and> randint_in_range example_random
   \<and> nonempty_candidates (param_distributions example_sampler)
   \<and> only_candidate_lists (param_distributions example_sampler)
   \<and> random_state example_sampler = IntSeed 0
   \<and> ParameterSampler_len example_sampler = 2
   \<and> map_sum id fst (ParameterSampler_iter example_random example_sampler 5) =
     map_sum id fst (ParameterSampler_iter example_random example_sampler 7)"
proof -
  have h1: "0 \<le> n_iter example_sampler" by (simp add: example_sampler_def)
  have h2: "randint_in_range example_random"
    by (simp add: randint_in_range_def example_random_def)
  have h3: "nonempty_candidates (param_distributions example_sampler)"
    by (simp add: nonempty_candidates_def example_sampler_def)
  have h4: "only_candidate_lists (param_distributions example_sampler)"
    by (simp add: only_candidate_lists_def example_sampler_def)
  have h5: "random_state example_sampler = IntSeed 0" by (simp add: example_sampler_def)
  note main = ParameterSampler_contract [OF h1 h2 h3, of 7]
  from main have "ParameterSampler_len example_sampler = n_iter example_sampler"
    by (elim conjE)
  then have c1: "ParameterSampler_len example_sampler = 2" by (simp add: example_sampler_def)
  from main h4 h5 have c2:
    "map_sum id fst (ParameterSampler_iter example_random example_sampler 5) =
     map_sum id fst (ParameterSampler_iter example_random example_sampler 7)"
    by blast
  from h1 h2 h3 h4 h5 c1 c2 show ?thesis by (intro conjI)
qed

subsection \<open>Validation of the grid\<close>

lemma check_value_admissible: "admissible v \<Longrightarrow> check_value v = Inr ()"
  by (cases v) (auto simp: check_value_def Let_def length_Suc_conv)

lemma check_value_rejects: "\<not> admissible v \<Longrightarrow> \<exists>e. check_value v = Inl e"
proof (cases v)
  case (Ndarray sh)
  assume "\<not> admissible v"
  with Ndarray show ?thesis
    by (cases sh) (auto simp: check_value_def Let_def)
qed (auto simp: check_value_def Let_def)

lemma check_value_iff: "check_value v = Inr () \<longleftrightarrow> admissible v"
  using check_value_admissible check_value_rejects by (metis Inl_Inr_False)

lemma for_each_find:
  assumes "\<And>x. body x = Inr () \<longleftrightarrow> ok x"
  shows "for_each body xs = (case find (\<lambda>x. \<not> ok x) xs of None \<Rightarrow> Inr () | Some x \<Rightarrow> body x)"
proof (induction xs)
  case Nil
  show ?case by simp
next
  case (Cons x xs)
  show ?case
  proof (cases "ok x")
    case True
    then have "body x = Inr ()" using assms by simp
    with True Cons show ?thesis by simp
  next
    case False
    then have "body x \<noteq> Inr ()" using assms by simp
    then obtain e where "body x = Inl e" by (cases "body x") auto
    with False show ?thesis by simp
  qed
qed

lemma for_each_iff:
  assumes "\<And>x. body x = Inr () \<longleftrightarrow> ok x"
  shows "for_each body xs = Inr () \<longleftrightarrow> list_all ok xs"
proof (induction xs)
  case Nil
  show ?case by simp
next
  case (Cons x xs)
  show ?case
  proof (cases "body x")
    case (Inl e)
    then have "\<not> ok x" using assms [of x] by simp
    with Inl show ?thesis by simp
  next
    case (Inr u)
    then have "ok x" using assms [of x] by simp
    with Inr Cons show ?thesis by simp
  qed
qed

lemma for_each_concat:
  "for_each (\<lambda>p. for_each body (f p)) ps = for_each body (concat (map f ps))"
proof (induction ps)
  case Nil
  show ?case by simp
next
  case (Cons p ps)
  have app: "for_each body (xs @ ys) =
             (case for_each body xs of Inl e \<Rightarrow> Inl e | Inr u \<Rightarrow> for_each body ys)" for xs ys
    by (induction xs) (auto split: sum.splits)
  show ?case by (simp add: app Cons split: sum.splits)
qed

lemma check_param_grid_first:
  "check_param_grid g =
     (case find (\<lambda>v. \<not> admissible v) (grid_values g) of
        None \<Rightarrow> Inr ()
      | Some v \<Rightarrow> check_value v)"
  unfolding check_param_grid_def grid_values_def for_each_concat
  by (rule for_each_find) (rule check_value_iff)

lemma check_param_grid_iff:
  "check_param_grid g = Inr () \<longleftrightarrow> list_all admissible (grid_values g)"
  unfolding check_param_grid_def grid_values_def for_each_concat
  by (rule for_each_iff) (rule check_value_iff)

lemma GridSearchCV_init_rejects:
  assumes "\<not> list_all admissible (grid_values param_grid)"
  shows "\<exists>e. GridSearchCV_init api est param_grid scoring_arg loss_func_arg score_func_arg
           n_jobs_arg iid_arg refit_arg pre_dispatch_arg = Inl e"
proof -
  from assms have "check_param_grid param_grid \<noteq> Inr ()"
    by (simp add: check_param_grid_iff)
  then obtain e where "check_param_grid param_grid = Inl e"
    by (cases "check_param_grid param_grid") auto
  then show ?thesis
    by (auto simp: GridSearchCV_init_def split: sum.splits)
qed

text \<open>
  Claim C8. The check of a grid succeeds exactly when every value of every group is a
  non-empty list, a non-empty tuple or a non-empty one-dimensional array; otherwise it
  raises what the first offending value raises, which is a \<^verbatim>\<open>ValueError\<close> for a value that
  is not a list, tuple or array, for an array of more than one dimension and for an empty
  sequence; and the constructor of the exhaustive search then raises too, so that no
  search object exists to be fitted.
\<close>

theorem check_param_grid_contract:
  fixes param_grid :: "'v grid_value param_grid"
  shows "(check_param_grid param_grid = Inr () \<longleftrightarrow>
            list_all admissible (grid_values param_grid))
    \<and> check_param_grid param_grid =
        (case find (\<lambda>v. \<not> admissible v) (grid_values param_grid) of
           None \<Rightarrow> Inr ()
         | Some v \<Rightarrow> check_value v)
    \<and> check_value (PyObject :: 'v grid_value) =
        Inl (ValueError ''Parameter values should be a list.'')
    \<and> (\<forall>sh. length sh > 1 \<longrightarrow>
          check_value (Ndarray sh :: 'v grid_value) =
            Inl (ValueError ''Parameter array should be one-dimensional.''))
    \<and> check_value (PyList [] :: 'v grid_value) =
        Inl (ValueError ''Parameter values should be a non-empty list.'')
    \<and> check_value (PyTuple [] :: 'v grid_value) =
        Inl (ValueError ''Parameter values should be a non-empty list.'')
    \<and> check_value (Ndarray [0] :: 'v grid_value) =
        Inl (ValueError ''Parameter values should be a non-empty list.'')
    \<and> (\<not> list_all admissible (grid_values param_grid) \<longrightarrow>
        (\<exists>e. GridSearchCV_init api est param_grid scoring_arg loss_func_arg score_func_arg
           n_jobs_arg iid_arg refit_arg pre_dispatch_arg = Inl e))
    \<and> (list_all admissible (grid_values param_grid) \<longrightarrow>
        check_estimator api est scoring_arg loss_func_arg score_func_arg = Inr () \<longrightarrow>
        (\<exists>self. GridSearchCV_init api est param_grid scoring_arg loss_func_arg score_func_arg
           n_jobs_arg iid_arg refit_arg pre_dispatch_arg = Inr (self, param_grid)))"
proof (intro conjI allI impI)
  show "check_param_grid param_grid = Inr () \<longleftrightarrow> list_all admissible (grid_values param_grid)"
    by (rule check_param_grid_iff)
  show "check_param_grid param_grid =
        (case find (\<lambda>v. \<not> admissible v) (grid_values param_grid) of
           None \<Rightarrow> Inr ()
         | Some v \<Rightarrow> check_value v)"
    by (rule check_param_grid_first)
  show "check_value (PyObject :: 'v grid_value) =
        Inl (ValueError ''Parameter values should be a list.'')"
    by (simp add: check_value_def)
  show "check_value (Ndarray sh :: 'v grid_value) =
        Inl (ValueError ''Parameter array should be one-dimensional.'')"
    if "length sh > 1" for sh
    using that by (simp add: check_value_def)
  show "check_value (PyList [] :: 'v grid_value) =
        Inl (ValueError ''Parameter values should be a non-empty list.'')"
    by (simp add: check_value_def)
  show "check_value (PyTuple [] :: 'v grid_value) =
        Inl (ValueError ''Parameter values should be a non-empty list.'')"
    by (simp add: check_value_def)
  show "check_value (Ndarray [0] :: 'v grid_value) =
        Inl (ValueError ''Parameter values should be a non-empty list.'')"
    by (simp add: check_value_def)
  show "\<exists>e. GridSearchCV_init api est param_grid scoring_arg loss_func_arg score_func_arg
           n_jobs_arg iid_arg refit_arg pre_dispatch_arg = Inl e"
    if "\<not> list_all admissible (grid_values param_grid)"
    using that by (rule GridSearchCV_init_rejects)
  show "\<exists>self. GridSearchCV_init api est param_grid scoring_arg loss_func_arg score_func_arg
           n_jobs_arg iid_arg refit_arg pre_dispatch_arg = Inr (self, param_grid)"
    if "list_all admissible (grid_values param_grid)"
      and "check_estimator api est scoring_arg loss_func_arg score_func_arg = Inr ()"
  proof -
    from that(1) have "check_param_grid param_grid = Inr ()"
      by (simp add: check_param_grid_iff)
    with that(2) show ?thesis
      by (simp add: GridSearchCV_init_def BaseSearchCV_init_def)
  qed
qed

theorem check_param_grid_contract_witness:
  "\<not> list_all admissible
       (grid_values (Mapping [(''C'', PyList [1, 10 :: nat]), (''gamma'', PyList [])]))
   \<and> check_param_grid (Mapping [(''C'', PyList [1, 10 :: nat]), (''gamma'', PyList [])]) =
       Inl (ValueError ''Parameter values should be a non-empty list.'')
   \<and> list_all admissible
       (grid_values (Sequence [[(''C'', PyList [1, 10 :: nat])], [(''gamma'', Ndarray [3])]]))
   \<and> check_param_grid (Sequence [[(''C'', PyList [1, 10 :: nat])], [(''gamma'', Ndarray [3])]]) =
       Inr ()
   \<and> check_value (Ndarray [2, 3] :: nat grid_value) =
       Inl (ValueError ''Parameter array should be one-dimensional.'')"
proof -
  let ?bad = "Mapping [(''C'', PyList [1, 10 :: nat]), (''gamma'', PyList [])]"
  let ?good = "Sequence [[(''C'', PyList [1, 10 :: nat])], [(''gamma'', Ndarray [3])]]"
  have b: "\<not> list_all admissible (grid_values ?bad)" by (simp add: grid_values_def)
  have g: "list_all admissible (grid_values ?good)" by (simp add: grid_values_def)
  have f: "find (\<lambda>v. \<not> admissible v) (grid_values ?bad) = Some (PyList [])"
    by (simp add: grid_values_def)
  have l: "length [2, 3 :: nat] > 1" by simp
  have "check_param_grid ?bad = Inl (ValueError ''Parameter values should be a non-empty list.'')"
    using check_param_grid_contract [of ?bad, THEN conjunct2, THEN conjunct1] f
    by (simp add: check_value_def)
  moreover have "check_param_grid ?good = Inr ()"
    using check_param_grid_contract [of ?good, THEN conjunct1] g by simp
  moreover have "check_value (Ndarray [2, 3] :: nat grid_value) =
       Inl (ValueError ''Parameter array should be one-dimensional.'')"
    using check_param_grid_contract
      [of ?good, THEN conjunct2, THEN conjunct2, THEN conjunct2, THEN conjunct1] l
    by blast
  ultimately show ?thesis using b g by (intro conjI)
qed

subsection \<open>Evaluation of one grid point\<close>

text \<open>
  Claim C7. When the clone accepts the parameters, the kernel is not a callable, the data
  can be split and the fit succeeds, the evaluation of one (configuration, fold) unit
  turns on what the scorer (or, without a scorer, the estimator's own \<^verbatim>\<open>score\<close>) returns
  on the test part: for an object that is not a number it raises a \<^verbatim>\<open>ValueError\<close> whose
  message carries the object and its type; for a number it returns that score with the
  configuration and the number of test samples.
\<close>

theorem fit_grid_point_score_contract:
  fixes parameters :: 'p
  assumes "set_params api (clone api base_estimator) parameters = Inr clf"
    and "\<not> callable_kernel api base_estimator"
    and "split_X api X base_estimator train test = Inr (X_train, X_test)"
    and "fit api clf X_train (map_option (\<lambda>y. mask_targets api y train) y) = Inr fitted"
    and "(case scorer of
            Some s \<Rightarrow> call s fitted X_test (map_option (\<lambda>y. mask_targets api y test) y)
          | None \<Rightarrow> score api fitted X_test (map_option (\<lambda>y. mask_targets api y test) y)) =
         Inr returned"
  shows "(\<forall>str type. returned = NotNumber str type \<longrightarrow>
            fit_grid_point api X y base_estimator parameters train test scorer =
              Inl (ValueError (''scoring must return a number, got '' @ str @
                               '' ('' @ type @ '') instead.'')))
       \<and> (\<forall>this_score. returned = Number this_score \<longrightarrow>
            fit_grid_point api X y base_estimator parameters train test scorer =
              Inr (this_score, parameters, num_samples api X_test))"
  using assms by (simp add: fit_grid_point_def Let_def)

theorem fit_grid_point_score_contract_witness:
  "fit_grid_point example_api [10, 20, 30, 40] (Some [0, 1, 0, 1]) 0 5 [0, 1, 2] [3]
     (Some \<lparr>call = (\<lambda>e X y. Inr (NotNumber ''None'' ''<type 'NoneType'>'')),
            greater_is_better = None\<rparr>) =
   Inl (ValueError ''scoring must return a number, got None (<type 'NoneType'>) instead.'')
   \<and> fit_grid_point example_api [10, 20, 30, 40] (Some [0, 1, 0, 1]) 0 5 [0, 1, 2] [3] None =
   Inr (8, 5, 1)"
proof -
  let ?s = "Some \<lparr>call = (\<lambda>(e::nat) (X::nat list) (y::nat list option).
                     Inr (NotNumber ''None'' ''<type 'NoneType'>'')),
                 greater_is_better = None\<rparr>"
  have a: "set_params example_api (clone example_api 0) 5 = Inr 5"
    by (simp add: example_api_def)
  have b: "\<not> callable_kernel example_api 0" by (simp add: example_api_def)
  have c: "split_X example_api [10, 20, 30, 40] 0 [0, 1, 2] [3] = Inr ([10, 20, 30], [40])"
    by (simp add: split_X_def example_api_def)
  have d: "fit example_api 5 [10, 20, 30]
             (map_option (\<lambda>y. mask_targets example_api y [0, 1, 2]) (Some [0, 1, 0, 1])) = Inr 8"
    by (simp add: example_api_def)
  have e1: "(case ?s of
            Some s \<Rightarrow> call s 8 [40] (map_option (\<lambda>y. mask_targets example_api y [3]) (Some [0, 1, 0, 1]))
          | None \<Rightarrow> score example_api 8 [40]
                     (map_option (\<lambda>y. mask_targets example_api y [3]) (Some [0, 1, 0, 1]))) =
         Inr (NotNumber ''None'' ''<type 'NoneType'>'')"
    by simp
  have e2: "(case None of
            Some s \<Rightarrow> call s 8 [40] (map_option (\<lambda>y. mask_targets example_api y [3]) (Some [0, 1, 0, 1]))
          | None \<Rightarrow> score example_api 8 [40]
                     (map_option (\<lambda>y. mask_targets example_api y [3]) (Some [0, 1, 0, 1]))) =
         Inr (Number 8)"
    by (simp add: example_api_def)
  have n: "num_samples example_api [40] = 1" by (simp add: example_api_def)
  from fit_grid_point_score_contract [OF a b c d e1]
  have "fit_grid_point example_api [10, 20, 30, 40] (Some [0, 1, 0, 1]) 0 5 [0, 1, 2] [3] ?s =
        Inl (ValueError ''scoring must return a number, got None (<type 'NoneType'>) instead.'')"
    by simp
  moreover from fit_grid_point_score_contract [OF a b c d e2] n
  have "fit_grid_point example_api [10, 20, 30, 40] (Some [0, 1, 0, 1]) 0 5 [0, 1, 2] [3] None =
        Inr (8, 5, 1)"
    by simp
  ultimately show ?thesis by (intro conjI)
qed

subsection \<open>The delegated score\<close>

text \<open>
  Claim C10. On a search that has been refit, \<^verbatim>\<open>score\<close> is the best estimator's own
  \<^verbatim>\<open>score\<close> whenever it has one, whatever scorer the search holds; the scorer is called
  only when the best estimator has no \<^verbatim>\<open>score\<close>, and if there is no scorer either the call
  raises a \<^verbatim>\<open>ValueError\<close>.
\<close>

theorem BaseSearchCV_score_contract:
  assumes "best_estimator_' self = Some best"
  shows "(hasattr_score api best \<longrightarrow>
            (\<forall>s. BaseSearchCV_score api (self\<lparr>scorer_' := s\<rparr>) X y = score api best X y))
       \<and> (\<not> hasattr_score api best \<longrightarrow>
            (\<forall>s. scorer_' self = Some (Some s) \<longrightarrow>
                 BaseSearchCV_score api self X y = call s best X y))
       \<and> (\<not> hasattr_score api best \<longrightarrow> scorer_' self = Some None \<longrightarrow>
            BaseSearchCV_score api self X y =
              Inl (ValueError (''No score function explicitly defined, '' @
                               ''and the estimator doesn't provide one '' @ repr api best)))"
  using assms by (simp add: BaseSearchCV_score_def)

theorem BaseSearchCV_score_contract_witness:
  "BaseSearchCV_score example_api (example_search\<lparr>best_estimator_' := Some 3\<rparr>) [1, 2] None =
     Inr (Number 3)
   \<and> BaseSearchCV_score (example_api\<lparr>hasattr_score := (\<lambda>e. False)\<rparr>)
       (example_search\<lparr>best_estimator_' := Some 3, scorer_' := Some None\<rparr>) [1, 2] None =
     Inl (ValueError ''No score function explicitly defined, and the estimator doesn't provide one Estimator()'')"
proof -
  let ?a = "example_api\<lparr>hasattr_score := (\<lambda>e. False)\<rparr>"
  let ?s = "example_search\<lparr>best_estimator_' := Some 3\<rparr>"
  let ?t = "example_search\<lparr>best_estimator_' := Some 3, scorer_' := Some None\<rparr>"
  have b: "best_estimator_' ?s = Some 3" by simp
  have h: "hasattr_score example_api 3" by (simp add: example_api_def)
  have c: "best_estimator_' ?t = Some 3" by simp
  have n: "\<not> hasattr_score ?a 3" by simp
  have u: "scorer_' ?t = Some None" by simp
  have "BaseSearchCV_score example_api (?s\<lparr>scorer_' := scorer_' ?s\<rparr>) [1, 2] None =
        score example_api 3 [1, 2] None"
    using BaseSearchCV_score_contract [OF b, of example_api "[1, 2]" None] h by blast
  then have "BaseSearchCV_score example_api ?s [1, 2] None = Inr (Number 3)"
    by (simp add: example_api_def)
  moreover have "BaseSearchCV_score ?a ?t [1, 2] None =
        Inl (ValueError (''No score function explicitly defined, '' @
                         ''and the estimator doesn't provide one '' @ repr ?a 3))"
    using BaseSearchCV_score_contract [OF c, of ?a "[1, 2]" None] n u by blast
  then have "BaseSearchCV_score ?a ?t [1, 2] None =
     Inl (ValueError ''No score function explicitly defined, and the estimator doesn't provide one Estimator()'')"
    by (simp add: example_api_def)
  ultimately show ?thesis by (intro conjI)
qed

subsection \<open>The scorer of a search\<close>

text \<open>
  Claim C5, as the specification states it, fails: with both a scoring object and a loss
  function, the search scores with the loss function.
\<close>

theorem resolve_scorer_counterexample:
  "resolve_scorer example_metrics example_search =
     Inr ([loss_func_warning], Some (Scorer example_metrics 7 False))
   \<and> spec_resolve_scorer example_metrics example_search =
     Inr (Some \<lparr>call = (\<lambda>e X y. Inr (Number 1)), greater_is_better = Some True\<rparr>)
   \<and> map_sum id snd (resolve_scorer example_metrics example_search) \<noteq>
     spec_resolve_scorer example_metrics example_search"
  by (simp add: resolve_scorer_def spec_resolve_scorer_def example_metrics_def
      example_search_def Scorer_def)

lemma fit_search_scorer:
  "resolve_scorer m self = Inr (w, s) \<Longrightarrow>
   scorer_' (snd (fit_search api m completion self X y parameter_iterable cv)) = Some s"
  by (simp add: fit_search_def process_out_def Let_def split: sum.splits option.splits)

lemma fit_search_dispatch:
  assumes "resolve_scorer m self = Inr (w, s)"
    and "\<forall>t. y = Some t \<longrightarrow> len_targets api t = num_samples api X"
  shows "fit_search api m completion self X y parameter_iterable cv =
     (case Parallel (n_jobs self) (pre_dispatch self) completion
             (work_units api X y (clone api (estimator self)) s parameter_iterable cv) of
        Inl e \<Rightarrow> (Some e, self\<lparr>scorer_' := Some s\<rparr>)
      | Inr out \<Rightarrow>
          process_out api (self\<lparr>scorer_' := Some s\<rparr>) (clone api (estimator self)) X y out
            (length cv))"
  using assms by (simp add: fit_search_def Let_def split: option.splits)

text \<open>
  Claim C5, amended. The scorer of a search is resolved by the fixed precedence
  \<^verbatim>\<open>loss_func\<close> before \<^verbatim>\<open>score_func\<close> before \<^verbatim>\<open>scoring\<close>: a loss function is wrapped into a
  scorer for which smaller is better, a score function into one for which greater is
  better, each with one deprecation warning and nothing else; \<^verbatim>\<open>scoring\<close> is consulted only
  when both are absent. The resolution comes before any evaluation: when it raises, the
  search ends there; otherwise the search keeps the resolved scorer and every work unit is
  evaluated with it.
\<close>

theorem resolve_scorer_precedence:
  fixes m :: "('e, 'f, 'x, 'y) metrics" and self :: "('e, 'f, 'p, 'x, 'y) BaseSearchCV"
    and api :: "('e, 'p, 'x, 'y, 'i) collaborators"
  shows "(\<forall>f. loss_func self = Some f \<longrightarrow>
            resolve_scorer m self = Inr ([loss_func_warning], Some (Scorer m f False)))
    \<and> (\<forall>f. loss_func self = None \<longrightarrow> score_func self = Some f \<longrightarrow>
            resolve_scorer m self = Inr ([score_func_warning], Some (Scorer m f True)))
    \<and> (loss_func self = None \<longrightarrow> score_func self = None \<longrightarrow>
          resolve_scorer m self =
            (case scoring self of
               None \<Rightarrow> Inr ([], None)
             | Some (ScoringObject s) \<Rightarrow> Inr ([], Some s)
             | Some (ScoringName name) \<Rightarrow>
                 (case SCORERS m name of
                    None \<Rightarrow> Inl (KeyError name)
                  | Some s \<Rightarrow> Inr ([], Some s))))
    \<and> (\<forall>e. resolve_scorer m self = Inl e \<longrightarrow>
            fit_search api m completion self X y parameter_iterable cv = (Some e, self))
    \<and> (\<forall>w s. resolve_scorer m self = Inr (w, s) \<longrightarrow>
            scorer_' (snd (fit_search api m completion self X y parameter_iterable cv)) = Some s)
    \<and> (\<forall>w s. resolve_scorer m self = Inr (w, s) \<longrightarrow>
            (\<forall>t. y = Some t \<longrightarrow> len_targets api t = num_samples api X) \<longrightarrow>
            fit_search api m completion self X y parameter_iterable cv =
              (case Parallel (n_jobs self) (pre_dispatch self) completion
                      (work_units api X y (clone api (estimator self)) s parameter_iterable cv) of
                 Inl e \<Rightarrow> (Some e, self\<lparr>scorer_' := Some s\<rparr>)
               | Inr out \<Rightarrow>
                   process_out api (self\<lparr>scorer_' := Some s\<rparr>) (clone api (estimator self))
                     X y out (length cv)))"
proof (intro conjI allI impI)
  show "resolve_scorer m self = Inr ([loss_func_warning], Some (Scorer m f False))"
    if "loss_func self = Some f" for f
    using that by (simp add: resolve_scorer_def)
  show "resolve_scorer m self = Inr ([score_func_warning], Some (Scorer m f True))"
    if "loss_func self = None" "score_func self = Some f" for f
    using that by (simp add: resolve_scorer_def)
  show "resolve_scorer m self =
            (case scoring self of
               None \<Rightarrow> Inr ([], None)
             | Some (ScoringObject s) \<Rightarrow> Inr ([], Some s)
             | Some (ScoringName name) \<Rightarrow>
                 (case SCORERS m name of
                    None \<Rightarrow> Inl (KeyError name)
                  | Some s \<Rightarrow> Inr ([], Some s)))"
    if "loss_func self = None" "score_func self = None"
    using that by (simp add: resolve_scorer_def split: option.splits scoring.splits)
  show "fit_search api m completion self X y parameter_iterable cv = (Some e, self)"
    if "resolve_scorer m self = Inl e" for e
    using that by (simp add: fit_search_def)
  show "scorer_' (snd (fit_search api m completion self X y parameter_iterable cv)) = Some s"
    if "resolve_scorer m self = Inr (w, s)" for w s
    using that by (rule fit_search_scorer)
  show "fit_search api m completion self X y parameter_iterable cv =
              (case Parallel (n_jobs self) (pre_dispatch self) completion
                      (work_units api X y (clone api (estimator self)) s parameter_iterable cv) of
                 Inl e \<Rightarrow> (Some e, self\<lparr>scorer_' := Some s\<rparr>)
               | Inr out \<Rightarrow>
                   process_out api (self\<lparr>scorer_' := Some s\<rparr>) (clone api (estimator self))
                     X y out (length cv))"
    if "resolve_scorer m self = Inr (w, s)"
      "\<forall>t. y = Some t \<longrightarrow> len_targets api t = num_samples api X" for w s
    using that by (rule fit_search_dispatch)
qed

theorem resolve_scorer_precedence_witness:
  "loss_func example_search = Some 7
   \<and> resolve_scorer example_metrics example_search =
       Inr ([loss_func_warning], Some (Scorer example_metrics 7 False))
   \<and> loss_func (example_search\<lparr>loss_func := None, score_func := Some 4\<rparr>) = None
   \<and> score_func (example_search\<lparr>loss_func := None, score_func := Some 4\<rparr>) = Some 4
   \<and> resolve_scorer example_metrics (example_search\<lparr>loss_func := None, score_func := Some 4\<rparr>) =
       Inr ([score_func_warning], Some (Scorer example_metrics 4 True))"
proof -
  let ?t = "example_search\<lparr>loss_func := None, score_func := Some 4\<rparr>"
  have a: "loss_func example_search = Some 7" by (simp add: example_search_def)
  have b: "loss_func ?t = None" by simp
  have c: "score_func ?t = Some 4" by simp
  have "resolve_scorer example_metrics example_search =
       Inr ([loss_func_warning], Some (Scorer example_metrics 7 False))"
    using resolve_scorer_precedence [of example_search example_metrics, THEN conjunct1] a
    by blast
  moreover have "resolve_scorer example_metrics ?t =
       Inr ([score_func_warning], Some (Scorer example_metrics 4 True))"
    using resolve_scorer_precedence [of ?t example_metrics, THEN conjunct2, THEN conjunct1] b c
    by blast
  ultimately show ?thesis using a b c by (intro conjI)
qed

end
